theory Spec2Isabelle
  imports Complex_Main "HOL-Library.Word"
begin

unbundle bit_operations_syntax

section \<open>Errors\<close>

text \<open>
  Every fatal path of the sources (a failed \<^verbatim>\<open>assert\<close>, a failed
  \<^verbatim>\<open>Errors::runtime_check\<close>) ends the process. In the model it is a value:
  the function returns \<open>Inl\<close> of the error and nothing else happens.
\<close>

datatype CombineMode = Replace | Scale | Update | ScaleUpdate | ScaleAdd | Add | ProdUpdate

datatype error =
    AssertFailed
  | AlphaDiscarded CombineMode
  | BetaDiscarded CombineMode

section \<open>Build configuration, packs and views\<close>

text \<open>
  The kernels are compiled for one execution space. \<^verbatim>\<open>OnGpu<ExecSpace>::value\<close>
  selects the code path, \<^verbatim>\<open>NDEBUG\<close> removes the sanity checks and the
  assertions, \<^verbatim>\<open>XX_NONBFB_COMING\<close> selects how \<^verbatim>\<open>ElementOps\<close>
  averages the hydrostatic pressure, and
  \<^verbatim>\<open>VECTOR_SIZE\<close> and \<^verbatim>\<open>NUM_PHYSICAL_LEV\<close> fix the shape of every
  column. A GPU build has \<^verbatim>\<open>VECTOR_SIZE = 1\<close> (the \<^verbatim>\<open>static_assert\<close> of
  \<^verbatim>\<open>column_scan_impl\<close> says so).
\<close>

record build =
  OnGpu :: bool
  NDEBUG :: bool
  XX_NONBFB_COMING :: bool
  VECTOR_SIZE :: nat
  NUM_PHYSICAL_LEV :: nat

definition wf_build :: "build \<Rightarrow> bool" where
  "wf_build b = (1 \<le> VECTOR_SIZE b \<and> 1 \<le> NUM_PHYSICAL_LEV b
                 \<and> (if OnGpu b then VECTOR_SIZE b = 1 else True))"

text \<open>
  \<^verbatim>\<open>Real\<close> is modelled by the real numbers: the theorems below are about which
  value is combined into which entry, and hold for the exact arithmetic the floating
  point operations round. The one exception is \<^verbatim>\<open>compute_dpnh_dp_i\<close>, whose
  specified result rests on a cancellation: its operations are rounded and its quotients
  by zero are kept apart. A \<^verbatim>\<open>Scalar\<close> is a pack of \<^verbatim>\<open>VECTOR_SIZE\<close>
  lanes, modelled as a function of the lane index (the code never reads a lane
  \<open>\<ge> VECTOR_SIZE\<close>); a view, or an input provider (a lambda from the pack index),
  is a function from the pack index to the pack.
\<close>

type_synonym Real = real
type_synonym Scalar = "nat \<Rightarrow> Real"
type_synonym view = "nat \<Rightarrow> Scalar"

text \<open>
  Modelled from the spec: \<^verbatim>\<open>ColInfo\<close>, \<^verbatim>\<open>NUM_LEV\<close>, \<^verbatim>\<open>NUM_LEV_P\<close> and
  \<^verbatim>\<open>VECTOR_END\<close> come from \<^verbatim>\<open>Types.hpp\<close>, which is not among the sources.
  Mid-level arrays have \<^verbatim>\<open>NUM_PHYSICAL_LEV\<close> entries and interface arrays one
  more; \<^verbatim>\<open>ColInfo<N>\<close> describes how \<open>N\<close> entries are laid out in packs:
  the number of packs, the index of the last one, how many entries it holds and the lane
  of its last entry (\<^verbatim>\<open>LastPackEnd\<close>, which \<^verbatim>\<open>EquationOfState\<close> calls
  \<^verbatim>\<open>LastVecEnd\<close>).
\<close>

definition VECTOR_END :: "nat \<Rightarrow> nat" where
  "VECTOR_END VS = VS - 1"

definition NumPacks :: "nat \<Rightarrow> nat \<Rightarrow> nat" where
  "NumPacks VS N = (N + VS - 1) div VS"

definition LastPack :: "nat \<Rightarrow> nat \<Rightarrow> nat" where
  "LastPack VS N = NumPacks VS N - 1"

definition LastPackLen :: "nat \<Rightarrow> nat \<Rightarrow> nat" where
  "LastPackLen VS N = N - LastPack VS N * VS"

definition LastPackEnd :: "nat \<Rightarrow> nat \<Rightarrow> nat" where
  "LastPackEnd VS N = LastPackLen VS N - 1"

definition LastVecEnd :: "nat \<Rightarrow> nat \<Rightarrow> nat" where
  "LastVecEnd VS N = LastPackEnd VS N"

definition NUM_INTERFACE_LEV :: "nat \<Rightarrow> nat" where
  "NUM_INTERFACE_LEV NLEV = NLEV + 1"

definition NUM_LEV :: "nat \<Rightarrow> nat \<Rightarrow> nat" where
  "NUM_LEV VS NLEV = NumPacks VS NLEV"

definition NUM_LEV_P :: "nat \<Rightarrow> nat \<Rightarrow> nat" where
  "NUM_LEV_P VS NLEV = NumPacks VS (NUM_INTERFACE_LEV NLEV)"

text \<open>
  The entry of level \<open>k\<close> of a packed column: pack \<open>k div VECTOR_SIZE\<close>, lane
  \<open>k mod VECTOR_SIZE\<close>.
\<close>

definition flat :: "nat \<Rightarrow> view \<Rightarrow> nat \<Rightarrow> Real" where
  "flat VS v k = v (k div VS) (k mod VS)"

text \<open>Writing one lane of one pack: \<^verbatim>\<open>v(p)[l] = x\<close>.\<close>

definition set_lane :: "view \<Rightarrow> nat \<Rightarrow> nat \<Rightarrow> Real \<Rightarrow> view" where
  "set_lane v p l x = v(p := (v p)(l := x))"

text \<open>
  Modelled from the spec: the pack type's \<^verbatim>\<open>shift_left\<close> and
  \<^verbatim>\<open>shift_right\<close> belong to the vector class, which is not among the sources.
  \<^verbatim>\<open>shift_right(n)\<close> moves every lane \<open>n\<close> places up and inserts leading
  zeros, as the comments of \<^verbatim>\<open>compute_interface_values\<close> say;
  \<^verbatim>\<open>shift_left(n)\<close> moves every lane \<open>n\<close> places down and fills the end with
  zeros.
\<close>

definition shift_left :: "nat \<Rightarrow> nat \<Rightarrow> Scalar \<Rightarrow> Scalar" where
  "shift_left VS n t = (\<lambda>iv. if iv + n < VS then t (iv + n) else 0)"

definition shift_right :: "nat \<Rightarrow> Scalar \<Rightarrow> Scalar" where
  "shift_right n t = (\<lambda>iv. if iv < n then 0 else t (iv - n))"

section \<open>combine\<close>

text \<open>
  \<^verbatim>\<open>combine<CM>(newVal, result, alpha, beta)\<close> returns the new content of
  \<^verbatim>\<open>result\<close>.
\<close>

fun combine :: "CombineMode \<Rightarrow> Real \<Rightarrow> Real \<Rightarrow> Real \<Rightarrow> Real \<Rightarrow> Real" where
  "combine Replace newVal result alpha beta = newVal"
| "combine Scale newVal result alpha beta = alpha * newVal"
| "combine Update newVal result alpha beta = result * beta + newVal"
| "combine ScaleUpdate newVal result alpha beta = result * beta + alpha * newVal"
| "combine ScaleAdd newVal result alpha beta = result + alpha * newVal"
| "combine Add newVal result alpha beta = result + newVal"
| "combine ProdUpdate newVal result alpha beta = result * newVal"

text \<open>The same on whole packs, lane by lane.\<close>

definition combine_pack :: "CombineMode \<Rightarrow> Scalar \<Rightarrow> Scalar \<Rightarrow> Real \<Rightarrow> Real \<Rightarrow> Scalar" where
  "combine_pack CM newVal result alpha beta = (\<lambda>iv. combine CM (newVal iv) (result iv) alpha beta)"

section \<open>ColumnOps: sanity check\<close>

fun needsAlpha :: "CombineMode \<Rightarrow> bool" where
  "needsAlpha CM = (CM = Scale \<or> CM = ScaleAdd \<or> CM = ScaleUpdate)"

fun needsBeta :: "CombineMode \<Rightarrow> bool" where
  "needsBeta CM = (CM = Update \<or> CM = ScaleUpdate)"

text \<open>
  Modelled from the spec: \<^verbatim>\<open>Errors::runtime_check\<close> of \<^verbatim>\<open>ErrorDefs.hpp\<close>
  is not among the sources; as the \<^verbatim>\<open>runtime_check\<close> of
  \<^verbatim>\<open>scream_assert.cpp\<close> does, it aborts with the message when the condition
  is false.
\<close>

definition runtime_check :: "bool \<Rightarrow> error \<Rightarrow> error + unit" where
  "runtime_check cond message = (if cond then Inr () else Inl message)"

definition sanity_check :: "CombineMode \<Rightarrow> Real \<Rightarrow> Real \<Rightarrow> error + unit" where
  "sanity_check CM alpha beta =
     (case runtime_check (needsAlpha CM \<or> alpha = 1) (AlphaDiscarded CM) of
        Inl e \<Rightarrow> Inl e
      | Inr _ \<Rightarrow> runtime_check (needsBeta CM \<or> beta = 0) (BetaDiscarded CM))"

text \<open>
  The prologue of every averaging and delta operator:
  \<^verbatim>\<open>#ifndef NDEBUG  sanity_check<CM>(alpha,beta);  #endif\<close>
\<close>

definition debug_sanity_check :: "build \<Rightarrow> CombineMode \<Rightarrow> Real \<Rightarrow> Real \<Rightarrow> error + unit" where
  "debug_sanity_check b CM alpha beta =
     (if NDEBUG b then Inr () else sanity_check CM alpha beta)"

section \<open>ColumnOps: midpoint values from interface values\<close>

definition compute_midpoint_values_gpu ::
  "nat \<Rightarrow> CombineMode \<Rightarrow> view \<Rightarrow> view \<Rightarrow> Real \<Rightarrow> Real \<Rightarrow> view" where
  "compute_midpoint_values_gpu NLEV CM x_i x_m alpha beta =
     fold (\<lambda>ilev x_m.
             let tmp = (\<lambda>iv. (x_i ilev iv + x_i (ilev + 1) iv) / 2)
             in x_m(ilev := combine_pack CM tmp (x_m ilev) alpha beta))
          [0..<NLEV] x_m"

definition compute_midpoint_values_simd ::
  "nat \<Rightarrow> nat \<Rightarrow> CombineMode \<Rightarrow> view \<Rightarrow> view \<Rightarrow> Real \<Rightarrow> Real \<Rightarrow> view" where
  "compute_midpoint_values_simd VS NLEV CM x_i x_m alpha beta =
     (let LAST_MID_PACK = LastPack VS NLEV;
          LAST_MID_PACK_END = LastPackEnd VS NLEV;
          LAST_INT_PACK = LastPack VS (NUM_INTERFACE_LEV NLEV);
          LAST_INT_PACK_END = LastPackEnd VS (NUM_INTERFACE_LEV NLEV);
          x_m = fold (\<lambda>ilev x_m.
                   let tmp = x_i ilev;
                       tmp = shift_left VS 1 tmp;
                       tmp = tmp(VECTOR_END VS := x_i (ilev + 1) 0);
                       tmp = (\<lambda>iv. tmp iv + x_i ilev iv);
                       tmp = (\<lambda>iv. tmp iv / 2)
                   in x_m(ilev := combine_pack CM tmp (x_m ilev) alpha beta))
                [0..<LAST_MID_PACK] x_m;
          tmp = x_i LAST_MID_PACK;
          tmp = shift_left VS 1 tmp;
          tmp = tmp(LAST_MID_PACK_END := x_i LAST_INT_PACK LAST_INT_PACK_END);
          tmp = (\<lambda>iv. tmp iv + x_i LAST_MID_PACK iv);
          tmp = (\<lambda>iv. tmp iv / 2)
      in x_m(LAST_MID_PACK := combine_pack CM tmp (x_m LAST_MID_PACK) alpha beta))"

definition compute_midpoint_values ::
  "build \<Rightarrow> CombineMode \<Rightarrow> view \<Rightarrow> view \<Rightarrow> Real \<Rightarrow> Real \<Rightarrow> error + view" where
  "compute_midpoint_values b CM x_i x_m alpha beta =
     (case debug_sanity_check b CM alpha beta of
        Inl e \<Rightarrow> Inl e
      | Inr _ \<Rightarrow>
          Inr (if OnGpu b
               then compute_midpoint_values_gpu (NUM_PHYSICAL_LEV b) CM x_i x_m alpha beta
               else compute_midpoint_values_simd (VECTOR_SIZE b) (NUM_PHYSICAL_LEV b) CM
                      x_i x_m alpha beta))"

section \<open>ColumnOps: interface values from midpoint values\<close>

definition compute_interface_values_gpu ::
  "nat \<Rightarrow> CombineMode \<Rightarrow> view \<Rightarrow> view \<Rightarrow> Real \<Rightarrow> Real \<Rightarrow> view" where
  "compute_interface_values_gpu NLEV CM x_m x_i alpha beta =
     (let x_i = fold (\<lambda>ilev x_i.
                   let tmp = (\<lambda>iv. (x_m ilev iv + x_m (ilev - 1) iv) / 2)
                   in x_i(ilev := combine_pack CM tmp (x_i ilev) alpha beta))
                [1..<NLEV] x_i;
          x_i = x_i(0 := combine_pack CM (x_m 0) (x_i 0) alpha beta);
          x_i = x_i(NUM_INTERFACE_LEV NLEV - 1 :=
                      combine_pack CM (x_m (NLEV - 1)) (x_i (NUM_INTERFACE_LEV NLEV - 1)) alpha beta)
      in x_i)"

definition compute_interface_values_simd ::
  "nat \<Rightarrow> nat \<Rightarrow> CombineMode \<Rightarrow> view \<Rightarrow> view \<Rightarrow> Real \<Rightarrow> Real \<Rightarrow> view" where
  "compute_interface_values_simd VS NLEV CM x_m x_i alpha beta =
     (let LAST_MID_PACK = LastPack VS NLEV;
          LAST_MID_PACK_END = LastPackEnd VS NLEV;
          LAST_INT_PACK = LastPack VS (NUM_INTERFACE_LEV NLEV);
          LAST_INT_PACK_END = LastPackEnd VS (NUM_INTERFACE_LEV NLEV);
          x_i = fold (\<lambda>ilev x_i.
                   let tmp = x_m ilev;
                       tmp = shift_right 1 tmp;
                       tmp = tmp(0 := x_m (ilev - 1) (VECTOR_END VS));
                       tmp = (\<lambda>iv. tmp iv + x_m ilev iv);
                       tmp = (\<lambda>iv. tmp iv / 2)
                   in x_i(ilev := combine_pack CM tmp (x_i ilev) alpha beta))
                [1..<NUM_LEV VS NLEV] x_i;
          tmp = x_m 0;
          tmp = shift_right 1 tmp;
          tmp = (\<lambda>iv. tmp iv + x_m 0 iv);
          tmp = (\<lambda>iv. tmp iv / 2);
          x_i = x_i(0 := combine_pack CM tmp (x_i 0) alpha beta);
          x_i = set_lane x_i 0 0 (combine CM (x_m 0 0) (x_i 0 0) alpha beta);
          x_i = set_lane x_i LAST_INT_PACK LAST_INT_PACK_END
                  (combine CM (x_m LAST_MID_PACK LAST_MID_PACK_END)
                     (x_i LAST_INT_PACK LAST_INT_PACK_END) alpha beta)
      in x_i)"

definition compute_interface_values ::
  "build \<Rightarrow> CombineMode \<Rightarrow> view \<Rightarrow> view \<Rightarrow> Real \<Rightarrow> Real \<Rightarrow> error + view" where
  "compute_interface_values b CM x_m x_i alpha beta =
     (case debug_sanity_check b CM alpha beta of
        Inl e \<Rightarrow> Inl e
      | Inr _ \<Rightarrow>
          Inr (if OnGpu b
               then compute_interface_values_gpu (NUM_PHYSICAL_LEV b) CM x_m x_i alpha beta
               else compute_interface_values_simd (VECTOR_SIZE b) (NUM_PHYSICAL_LEV b) CM
                      x_m x_i alpha beta))"

text \<open>
  The weighted variant. Its GPU branch fixes the boundaries with
  \<^verbatim>\<open>combine<CM>(x_m(NUM_INTERFACE_LEV-1),x_i(NUM_PHYSICAL_LEV-1),alpha,beta)\<close>:
  the two indices stand the other way round than in the unweighted operator.
\<close>

definition compute_interface_values_weighted_gpu ::
  "nat \<Rightarrow> CombineMode \<Rightarrow> view \<Rightarrow> view \<Rightarrow> view \<Rightarrow> view \<Rightarrow> Real \<Rightarrow> Real \<Rightarrow> view" where
  "compute_interface_values_weighted_gpu NLEV CM weights_m weights_i x_m x_i alpha beta =
     (let x_i = fold (\<lambda>ilev x_i.
                   let tmp = (\<lambda>iv. (x_m ilev iv * weights_m ilev iv
                                       + x_m (ilev - 1) iv * weights_m (ilev - 1) iv)
                                      / (2 * weights_i ilev iv))
                   in x_i(ilev := combine_pack CM tmp (x_i ilev) alpha beta))
                [1..<NLEV] x_i;
          x_i = x_i(0 := combine_pack CM (x_m 0) (x_i 0) alpha beta);
          x_i = x_i(NLEV - 1 :=
                      combine_pack CM (x_m (NUM_INTERFACE_LEV NLEV - 1)) (x_i (NLEV - 1)) alpha beta)
      in x_i)"

definition compute_interface_values_weighted_simd ::
  "nat \<Rightarrow> nat \<Rightarrow> CombineMode \<Rightarrow> view \<Rightarrow> view \<Rightarrow> view \<Rightarrow> view \<Rightarrow> Real \<Rightarrow> Real \<Rightarrow> view" where
  "compute_interface_values_weighted_simd VS NLEV CM weights_m weights_i x_m x_i alpha beta =
     (let LAST_MID_PACK = LastPack VS NLEV;
          LAST_MID_PACK_END = LastPackEnd VS NLEV;
          LAST_INT_PACK = LastPack VS (NUM_INTERFACE_LEV NLEV);
          LAST_INT_PACK_END = LastPackEnd VS (NUM_INTERFACE_LEV NLEV);
          x_i = fold (\<lambda>ilev x_i.
                   let tmp = (\<lambda>iv. x_m ilev iv * weights_m ilev iv);
                       tmp = shift_right 1 tmp;
                       tmp = tmp(0 := x_m (ilev - 1) (VECTOR_END VS)
                                      * weights_m (ilev - 1) (VECTOR_END VS));
                       tmp = (\<lambda>iv. tmp iv + x_m ilev iv * weights_m ilev iv);
                       tmp = (\<lambda>iv. tmp iv / (2 * weights_i ilev iv))
                   in x_i(ilev := combine_pack CM tmp (x_i ilev) alpha beta))
                [1..<NUM_LEV VS NLEV] x_i;
          tmp = (\<lambda>iv. x_m 0 iv * weights_m 0 iv);
          tmp = shift_right 1 tmp;
          tmp = (\<lambda>iv. tmp iv + x_m 0 iv * weights_m 0 iv);
          tmp = (\<lambda>iv. tmp iv / (2 * weights_i 0 iv));
          x_i = x_i(0 := combine_pack CM tmp (x_i 0) alpha beta);
          x_i = set_lane x_i 0 0 (combine CM (x_m 0 0) (x_i 0 0) alpha beta);
          x_i = set_lane x_i LAST_INT_PACK LAST_INT_PACK_END
                  (combine CM (x_m LAST_MID_PACK LAST_MID_PACK_END)
                     (x_i LAST_INT_PACK LAST_INT_PACK_END) alpha beta)
      in x_i)"

definition compute_interface_values_weighted ::
  "build \<Rightarrow> CombineMode \<Rightarrow> view \<Rightarrow> view \<Rightarrow> view \<Rightarrow> view \<Rightarrow> Real \<Rightarrow> Real \<Rightarrow> error + view" where
  "compute_interface_values_weighted b CM weights_m weights_i x_m x_i alpha beta =
     (case debug_sanity_check b CM alpha beta of
        Inl e \<Rightarrow> Inl e
      | Inr _ \<Rightarrow>
          Inr (if OnGpu b
               then compute_interface_values_weighted_gpu (NUM_PHYSICAL_LEV b) CM
                      weights_m weights_i x_m x_i alpha beta
               else compute_interface_values_weighted_simd (VECTOR_SIZE b) (NUM_PHYSICAL_LEV b) CM
                      weights_m weights_i x_m x_i alpha beta))"

section \<open>ColumnOps: midpoint deltas of interface data\<close>

definition compute_midpoint_delta_gpu ::
  "nat \<Rightarrow> CombineMode \<Rightarrow> view \<Rightarrow> view \<Rightarrow> Real \<Rightarrow> Real \<Rightarrow> view" where
  "compute_midpoint_delta_gpu NLEV CM x_i dx_m alpha beta =
     fold (\<lambda>ilev dx_m.
             let tmp = (\<lambda>iv. x_i (ilev + 1) iv - x_i ilev iv)
             in dx_m(ilev := combine_pack CM tmp (dx_m ilev) alpha beta))
          [0..<NLEV] dx_m"

definition compute_midpoint_delta_simd ::
  "nat \<Rightarrow> nat \<Rightarrow> CombineMode \<Rightarrow> view \<Rightarrow> view \<Rightarrow> Real \<Rightarrow> Real \<Rightarrow> view" where
  "compute_midpoint_delta_simd VS NLEV CM x_i dx_m alpha beta =
     (let LAST_MID_PACK = LastPack VS NLEV;
          LAST_MID_PACK_END = LastPackEnd VS NLEV;
          LAST_INT_PACK = LastPack VS (NUM_INTERFACE_LEV NLEV);
          LAST_INT_PACK_END = LastPackEnd VS (NUM_INTERFACE_LEV NLEV);
          dx_m = fold (\<lambda>ilev dx_m.
                    let tmp = x_i ilev;
                        tmp = shift_left VS 1 tmp;
                        tmp = tmp(VECTOR_END VS := x_i (ilev + 1) 0)
                    in dx_m(ilev := combine_pack CM (\<lambda>iv. tmp iv - x_i ilev iv)
                                      (dx_m ilev) alpha beta))
                 [0..<LAST_MID_PACK] dx_m;
          tmp = x_i LAST_MID_PACK;
          tmp = shift_left VS 1 tmp;
          tmp = tmp(LAST_MID_PACK_END := x_i LAST_INT_PACK LAST_INT_PACK_END)
      in dx_m(LAST_MID_PACK := combine_pack CM (\<lambda>iv. tmp iv - x_i LAST_MID_PACK iv)
                                 (dx_m LAST_MID_PACK) alpha beta))"

definition compute_midpoint_delta ::
  "build \<Rightarrow> CombineMode \<Rightarrow> view \<Rightarrow> view \<Rightarrow> Real \<Rightarrow> Real \<Rightarrow> error + view" where
  "compute_midpoint_delta b CM x_i dx_m alpha beta =
     (case debug_sanity_check b CM alpha beta of
        Inl e \<Rightarrow> Inl e
      | Inr _ \<Rightarrow>
          Inr (if OnGpu b
               then compute_midpoint_delta_gpu (NUM_PHYSICAL_LEV b) CM x_i dx_m alpha beta
               else compute_midpoint_delta_simd (VECTOR_SIZE b) (NUM_PHYSICAL_LEV b) CM
                      x_i dx_m alpha beta))"

section \<open>ColumnOps: interface deltas of midpoint data\<close>

datatype BCType = Zero | Value | DoNothing

definition compute_interface_delta_gpu ::
  "nat \<Rightarrow> CombineMode \<Rightarrow> BCType \<Rightarrow> view \<Rightarrow> view \<Rightarrow> Real \<Rightarrow> Real \<Rightarrow> Real \<Rightarrow> view" where
  "compute_interface_delta_gpu NLEV CM bcType x_m dx_i bcVal alpha beta =
     (let dx_i = fold (\<lambda>ilev dx_i.
                    dx_i(ilev := combine_pack CM (\<lambda>iv. x_m ilev iv - x_m (ilev - 1) iv)
                                   (dx_i ilev) alpha beta))
                 [1..<NLEV] dx_i
      in if bcType = Zero then
           (let dx_i = set_lane dx_i 0 0 (combine CM 0 (dx_i 0 0) alpha beta);
                dx_i = set_lane dx_i (NUM_INTERFACE_LEV NLEV - 1) 0
                         (combine CM 0 (dx_i (NUM_INTERFACE_LEV NLEV - 1) 0) alpha beta)
            in dx_i)
         else if bcType = Value then
           (let dx_i = set_lane dx_i 0 0 (combine CM bcVal (dx_i 0 0) alpha beta);
                dx_i = set_lane dx_i (NUM_INTERFACE_LEV NLEV - 1) 0
                         (combine CM bcVal (dx_i (NUM_INTERFACE_LEV NLEV - 1) 0) alpha beta)
            in dx_i)
         else dx_i)"

definition compute_interface_delta_simd ::
  "nat \<Rightarrow> nat \<Rightarrow> CombineMode \<Rightarrow> BCType \<Rightarrow> view \<Rightarrow> view \<Rightarrow> Real \<Rightarrow> Real \<Rightarrow> Real \<Rightarrow> view" where
  "compute_interface_delta_simd VS NLEV CM bcType x_m dx_i bcVal alpha beta =
     (let dx_i = fold (\<lambda>ilev dx_i.
                    let tmp = x_m ilev;
                        tmp = shift_right 1 tmp;
                        tmp = tmp(0 := x_m (ilev - 1) (VECTOR_END VS))
                    in dx_i(ilev := combine_pack CM (\<lambda>iv. x_m ilev iv - tmp iv)
                                      (dx_i ilev) alpha beta))
                 [1..<NUM_LEV VS NLEV] dx_i;
          tmp = x_m 0;
          tmp = shift_right 1 tmp;
          dx_i = dx_i(0 := combine_pack CM (\<lambda>iv. x_m 0 iv - tmp iv) (dx_i 0) alpha beta);
          LAST_PACK = LastPack VS (NUM_INTERFACE_LEV NLEV);
          LAST_PACK_END = LastPackEnd VS (NUM_INTERFACE_LEV NLEV)
      in if bcType = Zero then
           (let dx_i = set_lane dx_i 0 0 (combine CM 0 (dx_i 0 0) alpha beta);
                dx_i = set_lane dx_i LAST_PACK LAST_PACK_END
                         (combine CM 0 (dx_i LAST_PACK LAST_PACK_END) alpha beta)
            in dx_i)
         else if bcType = Value then
           (let dx_i = set_lane dx_i 0 0 (combine CM bcVal (dx_i 0 0) alpha beta);
                dx_i = set_lane dx_i LAST_PACK LAST_PACK_END
                         (combine CM bcVal (dx_i LAST_PACK LAST_PACK_END) alpha beta)
            in dx_i)
         else dx_i)"

definition compute_interface_delta ::
  "build \<Rightarrow> CombineMode \<Rightarrow> BCType \<Rightarrow> view \<Rightarrow> view \<Rightarrow> Real \<Rightarrow> Real \<Rightarrow> Real \<Rightarrow> error + view" where
  "compute_interface_delta b CM bcType x_m dx_i bcVal alpha beta =
     (case debug_sanity_check b CM alpha beta of
        Inl e \<Rightarrow> Inl e
      | Inr _ \<Rightarrow>
          Inr (if OnGpu b
               then compute_interface_delta_gpu (NUM_PHYSICAL_LEV b) CM bcType
                      x_m dx_i bcVal alpha beta
               else compute_interface_delta_simd (VECTOR_SIZE b) (NUM_PHYSICAL_LEV b) CM bcType
                      x_m dx_i bcVal alpha beta))"

section \<open>ColumnOps: column scans\<close>

text \<open>
  The wide-vector \<^verbatim>\<open>column_scan_impl\<close>. One step of its loop over the packs
  takes the view and the running integral and returns both.
\<close>

definition column_scan_fwd_pack ::
  "nat \<Rightarrow> bool \<Rightarrow> nat \<Rightarrow> view \<Rightarrow> nat \<Rightarrow> view \<times> Real \<Rightarrow> view \<times> Real" where
  "column_scan_fwd_pack VS Inclusive LEN input_provider ilev st =
     (let sum_v = fst st;
          integration = snd st;
          vec_end = (if ilev = LastPack VS LEN then LastPackEnd VS LEN else VECTOR_END VS);
          input = input_provider ilev;
          sum_val = sum_v ilev;
          sum_val = sum_val(0 := integration + (if Inclusive then input 0 else 0));
          sum_val = fold (\<lambda>iv sum_val.
                       sum_val(iv := sum_val (iv - 1)
                                      + (if Inclusive then input iv else input (iv - 1))))
                    [1..<vec_end + 1] sum_val;
          integration = sum_val vec_end + (if Inclusive then 0 else input vec_end)
      in (sum_v(ilev := sum_val), integration))"

definition column_scan_bwd_pack ::
  "nat \<Rightarrow> bool \<Rightarrow> nat \<Rightarrow> view \<Rightarrow> nat \<Rightarrow> view \<times> Real \<Rightarrow> view \<times> Real" where
  "column_scan_bwd_pack VS Inclusive LEN input_provider ilev st =
     (let sum_v = fst st;
          integration = snd st;
          vec_start = (if ilev = LastPack VS LEN then LastPackEnd VS LEN else VECTOR_END VS);
          input = input_provider ilev;
          sum_val = sum_v ilev;
          sum_val = sum_val(vec_start := integration + (if Inclusive then input vec_start else 0));
          sum_val = fold (\<lambda>iv sum_val.
                       sum_val(iv := sum_val (iv + 1)
                                      + (if Inclusive then input iv else input (iv + 1))))
                    (rev [0..<vec_start]) sum_val;
          integration = sum_val 0 + (if Inclusive then 0 else input 0)
      in (sum_v(ilev := sum_val), integration))"

definition column_scan_impl_simd ::
  "nat \<Rightarrow> bool \<Rightarrow> bool \<Rightarrow> nat \<Rightarrow> view \<Rightarrow> view \<Rightarrow> Real \<Rightarrow> view" where
  "column_scan_impl_simd VS Forward Inclusive LEN input_provider sum_v s0 =
     (if Forward
      then fst (fold (column_scan_fwd_pack VS Inclusive LEN input_provider)
                  [0..<NumPacks VS LEN] (sum_v, s0))
      else fst (fold (column_scan_bwd_pack VS Inclusive LEN input_provider)
                  (rev [0..<LastPack VS LEN + 1]) (sum_v, s0)))"

text \<open>
  The GPU \<^verbatim>\<open>column_scan_impl\<close> (\<open>LEN\<close> is its template argument \<^verbatim>\<open>LENGTH\<close>). Modelled from the spec:
  \<^verbatim>\<open>Dispatch<ExecSpace>::parallel_scan\<close> is not among the sources; its final pass
  calls the functor for \<open>k = 0, ..., LEN - 1\<close> with the accumulator holding the
  contributions of all smaller \<open>k\<close>, which is the sequential loop below. Assigning the
  accumulator to a pack sets all its lanes (one, in a GPU build).
\<close>

definition column_scan_impl_gpu ::
  "bool \<Rightarrow> bool \<Rightarrow> nat \<Rightarrow> view \<Rightarrow> view \<Rightarrow> Real \<Rightarrow> view" where
  "column_scan_impl_gpu Forward Inclusive LEN input_provider sum_v s0 =
     (if Forward
      then fst (fold (\<lambda>k st.
                   let sum_v = fst st;
                       accumulator = snd st;
                       accumulator = accumulator + input_provider k 0;
                       accumulator = (if k = 0 then accumulator + s0 else accumulator);
                       last_idx = (if Inclusive then int LEN - 1 else int LEN - 2);
                       offset = (if Inclusive then 0 else 1)
                   in (if int k \<le> last_idx
                       then sum_v(k + offset := (\<lambda>iv. accumulator)) else sum_v, accumulator))
                 [0..<LEN] (sum_v, 0))
      else fst (fold (\<lambda>k st.
                   let sum_v = fst st;
                       accumulator = snd st;
                       k_bwd = LEN - k - 1;
                       accumulator = accumulator + input_provider k_bwd 0;
                       accumulator = (if k = 0 then accumulator + s0 else accumulator);
                       last_idx = (if Inclusive then 0 else 1);
                       offset = (if Inclusive then 0 else 1)
                   in (if k_bwd \<ge> last_idx
                       then sum_v(k_bwd - offset := (\<lambda>iv. accumulator)) else sum_v, accumulator))
                 [0..<LEN] (sum_v, 0)))"

text \<open>
  \<^verbatim>\<open>column_scan_mid_to_int<Forward>\<close>: the input is on midpoints, the sum on
  interfaces, and the first (or, backward, the last) entry of the sum holds the initial
  value. The cropped view of the backward case is the same storage as the sum's (\<open>sum_v\<close> is the argument \<^verbatim>\<open>sum\<close>).
\<close>

definition column_scan_mid_to_int :: "build \<Rightarrow> bool \<Rightarrow> view \<Rightarrow> view \<Rightarrow> view" where
  "column_scan_mid_to_int b Forward input_provider sum_v =
     (let VS = VECTOR_SIZE b; NLEV = NUM_PHYSICAL_LEV b in
      if Forward then
        (if OnGpu b
         then column_scan_impl_gpu True False (NUM_INTERFACE_LEV NLEV) input_provider sum_v (sum_v 0 0)
         else column_scan_impl_simd VS True False (NUM_INTERFACE_LEV NLEV) input_provider sum_v
                (sum_v 0 0))
      else
        (let LAST_MID_PACK = LastPack VS NLEV;
             LAST_MID_PACK_END = LastPackEnd VS NLEV;
             LAST_INT_PACK = LastPack VS (NUM_INTERFACE_LEV NLEV);
             LAST_INT_PACK_END = LastPackEnd VS (NUM_INTERFACE_LEV NLEV);
             s0 = sum_v LAST_INT_PACK LAST_INT_PACK_END;
             sum_cropped = set_lane sum_v LAST_MID_PACK LAST_MID_PACK_END s0
         in if OnGpu b
            then column_scan_impl_gpu False True NLEV input_provider sum_cropped s0
            else column_scan_impl_simd VS False True NLEV input_provider sum_cropped s0))"

section \<open>Hybrid coordinate and physical constants\<close>

text \<open>
  Modelled from the spec: \<^verbatim>\<open>HybridVCoord.hpp\<close> and
  \<^verbatim>\<open>PhysicalConstants.hpp\<close> are not among the sources. The kernels read the
  reference surface pressure \<^verbatim>\<open>ps0\<close>, the interface coefficient column
  \<^verbatim>\<open>hybrid_ai\<close>, its first entry \<^verbatim>\<open>hybrid_ai0\<close> and the flag
  \<^verbatim>\<open>m_inited\<close>, and the constants \<open>p0\<close>, \<open>kappa\<close>, \<open>Rgas\<close>,
  \<open>Rwater_vapor\<close>, \<open>g\<close> and \<open>cp\<close>, whose values are arguments here.
\<close>

record HybridVCoord =
  ps0 :: Real
  hybrid_ai0 :: Real
  hybrid_ai :: "nat \<Rightarrow> Real"
  m_inited :: bool

record PhysicalConstants =
  p0 :: Real
  kappa :: Real
  Rgas :: Real
  Rwater_vapor :: Real
  g :: Real
  cp :: Real

text \<open>
  \<^verbatim>\<open>pow\<close> of the C library, on a positive base, where it is the real power.
\<close>

definition pow :: "Real \<Rightarrow> Real \<Rightarrow> Real" where
  "pow x y = x powr y"

section \<open>ElementOps\<close>

text \<open>
  \<^verbatim>\<open>ElementOps\<close> holds the hybrid coordinate \<^verbatim>\<open>m_hvcoord\<close>, the first
  argument of the functions below. Its constants:
  \<^verbatim>\<open>TREF = 288.0\<close>,
  \<^verbatim>\<open>T1 = 0.0065f*TREF*PhysicalConstants::cp/PhysicalConstants::g\<close>,
  \<^verbatim>\<open>T0 = TREF-T1\<close>.
  The literal \<^verbatim>\<open>0.0065f\<close> is a single-precision number: the binary fraction
  \<open>3489661 / 2^29 = 0.00650000013411045074462890625\<close>, which the product widens to
  double precision unchanged.
\<close>

definition TREF :: Real where
  "TREF = 288"

definition lapse_literal :: Real where
  "lapse_literal = 3489661 / 2 ^ 29"

definition T1 :: "PhysicalConstants \<Rightarrow> Real" where
  "T1 pc = lapse_literal * TREF * cp pc / g pc"

definition T0 :: "PhysicalConstants \<Rightarrow> Real" where
  "T0 pc = TREF - T1 pc"

definition ElementOps_compute_hydrostatic_p ::
  "build \<Rightarrow> HybridVCoord \<Rightarrow> view \<Rightarrow> view \<Rightarrow> view \<Rightarrow> error + view \<times> view" where
  "ElementOps_compute_hydrostatic_p b hv dp p_i pi' =
     (let p_i = set_lane p_i 0 0 (hybrid_ai0 hv * ps0 hv);
          p_i = column_scan_mid_to_int b True dp p_i
      in if XX_NONBFB_COMING b then
           (case compute_midpoint_values b Replace p_i pi' 1 0 of
              Inl e \<Rightarrow> Inl e
            | Inr pi' \<Rightarrow> Inr (p_i, pi'))
         else
           Inr (p_i, fold (\<lambda>ilev pi'. pi'(ilev := (\<lambda>iv. p_i ilev iv + dp ilev iv / 2)))
                       [0..<NUM_LEV (VECTOR_SIZE b) (NUM_PHYSICAL_LEV b)] pi'))"

definition compute_theta_ref ::
  "build \<Rightarrow> PhysicalConstants \<Rightarrow> HybridVCoord \<Rightarrow> view \<Rightarrow> view \<Rightarrow> error + view" where
  "compute_theta_ref b pc hv p theta_ref =
     (if \<not> NDEBUG b \<and> \<not> m_inited hv then Inl AssertFailed
      else Inr (fold (\<lambda>ilev theta_ref.
                   let theta_ref = theta_ref(ilev := (\<lambda>iv. pow (p ilev iv / p0 pc) (kappa pc)));
                       theta_ref = theta_ref(ilev := (\<lambda>iv. T0 pc / theta_ref ilev iv + T1 pc))
                   in theta_ref)
                 [0..<NUM_LEV (VECTOR_SIZE b) (NUM_PHYSICAL_LEV b)] theta_ref))"

section \<open>EquationOfState\<close>

record EquationOfState =
  m_theta_hydrostatic_mode :: bool
  m_hvcoord :: HybridVCoord

definition EquationOfState_init :: "build \<Rightarrow> bool \<Rightarrow> HybridVCoord \<Rightarrow> error + EquationOfState" where
  "EquationOfState_init b theta_hydrostatic_mode hvcoord =
     (if \<not> NDEBUG b \<and> \<not> m_inited hvcoord then Inl AssertFailed
      else Inr \<lparr>m_theta_hydrostatic_mode = theta_hydrostatic_mode, m_hvcoord = hvcoord\<rparr>)"

definition compute_hydrostatic_p ::
  "build \<Rightarrow> EquationOfState \<Rightarrow> view \<Rightarrow> view \<Rightarrow> view \<Rightarrow> error + view \<times> view" where
  "compute_hydrostatic_p b eos dp p_i pi' =
     (if \<not> NDEBUG b \<and> \<not> m_theta_hydrostatic_mode eos then Inl AssertFailed
      else
        (let p_i = set_lane p_i 0 0 (hybrid_ai0 (m_hvcoord eos) * ps0 (m_hvcoord eos));
             p_i = column_scan_mid_to_int b True dp p_i
         in case compute_midpoint_values b Replace p_i pi' 1 0 of
              Inl e \<Rightarrow> Inl e
            | Inr pi' \<Rightarrow> Inr (p_i, pi')))"

definition compute_exner :: "build \<Rightarrow> PhysicalConstants \<Rightarrow> view \<Rightarrow> view \<Rightarrow> view" where
  "compute_exner b pc pi' exner =
     fold (\<lambda>ilev exner.
             let exner = exner(ilev := pi' ilev);
                 exner = exner(ilev := (\<lambda>iv. exner ilev iv / p0 pc));
                 exner = exner(ilev := (\<lambda>iv. pow (exner ilev iv) (kappa pc)))
             in exner)
          [0..<NUM_LEV (VECTOR_SIZE b) (NUM_PHYSICAL_LEV b)] exner"

text \<open>
  \<^verbatim>\<open>compute_dpnh_dp_i\<close> divides by the thickness and, at the bottom, rests on a
  cancellation, so its arithmetic is modelled as floating point: every operation returns
  the rounding \<open>fl\<close> of its exact result, and a quotient by zero is not a number.
  The rounding is a parameter of the model: the identity is exact arithmetic and
  \<open>binary64\<close> below is the rounding of \<^verbatim>\<open>double\<close>. An entry of the result is
  a number, an infinity (a number other than zero divided by zero; its sign, that of the
  number times that of the zero, is not kept) or the NaN that zero divided by zero gives.
  A result too large for the exponent range is not modelled.
\<close>

datatype fval = Num Real | Infinity | NaN

type_synonym fview = "nat \<Rightarrow> nat \<Rightarrow> fval"

definition fdiv :: "(real \<Rightarrow> real) \<Rightarrow> Real \<Rightarrow> Real \<Rightarrow> fval" where
  "fdiv fl x y = (if y = 0 then (if x = 0 then NaN else Infinity) else Num (fl (x / y)))"

definition flat_f :: "nat \<Rightarrow> fview \<Rightarrow> nat \<Rightarrow> fval" where
  "flat_f VS v k = v (k div VS) (k mod VS)"

text \<open>
  The rounding of \<^verbatim>\<open>double\<close>: to the nearest number with a significand of 53
  bits, a tie going to the even significand. The exponent of \<open>x\<close> is
  \<open>\<lfloor>log 2 \<bar>x\<bar>\<rfloor>\<close>, not below \<open>-1022\<close>, where the subnormal numbers begin.
\<close>

definition round_ties_even :: "real \<Rightarrow> int" where
  "round_ties_even x =
     (let n = \<lfloor>x\<rfloor>; r = x - of_int n
      in if r < 1 / 2 then n else if 1 / 2 < r then n + 1 else if even n then n else n + 1)"

definition binary64 :: "real \<Rightarrow> real" where
  "binary64 x =
     (if x = 0 then 0
      else let e = max \<lfloor>log 2 \<bar>x\<bar>\<rfloor> (- 1022);
               ulp = 2 powr (of_int e - 52)
           in of_int (round_ties_even (x / ulp)) * ulp)"

text \<open>
  \<^verbatim>\<open>compute_dpnh_dp_i\<close>. In mode \<^verbatim>\<open>Replace\<close> the entries that
  \<^verbatim>\<open>compute_interface_delta\<close> stores are one subtraction each, which the model of
  the column operators computes exactly; they are rounded here, where the loop reads them.
  The loop over the packs of the mid levels divides every entry it visits, the two
  boundary entries included, which the last lines overwrite.
\<close>

definition compute_dpnh_dp_i ::
  "(real \<Rightarrow> real) \<Rightarrow> build \<Rightarrow> EquationOfState \<Rightarrow> view \<Rightarrow> view \<Rightarrow> view \<Rightarrow> error + fview" where
  "compute_dpnh_dp_i fl b eos pnh dp_i dpnh_dp_i =
     (let VS = VECTOR_SIZE b; NLEV = NUM_PHYSICAL_LEV b in
      if m_theta_hydrostatic_mode eos then
        Inr (fold (\<lambda>ilev r. r(ilev := (\<lambda>iv. Num 1)))
               [0..<NUM_LEV_P VS NLEV] (\<lambda>p l. Num (dpnh_dp_i p l)))
      else
        (case compute_interface_delta b Replace DoNothing pnh dpnh_dp_i 0 1 0 of
           Inl e \<Rightarrow> Inl e
         | Inr dpnh_dp_i \<Rightarrow>
             (let r = fold (\<lambda>ilev r.
                         r(ilev := (\<lambda>iv. fdiv fl (fl (dpnh_dp_i ilev iv)) (dp_i ilev iv))))
                      [0..<NUM_LEV VS NLEV] (\<lambda>p l. Num (fl (dpnh_dp_i p l)));
                  r = r(0 := (r 0)(0 :=
                        fdiv fl (fl (2 * fl (pnh 0 0
                                   - fl (hybrid_ai (m_hvcoord eos) 0 * ps0 (m_hvcoord eos)))))
                             (dp_i 0 0)));
                  pnh_last = pnh (LastPack VS NLEV) (LastVecEnd VS NLEV);
                  dp_last = dp_i (LastPack VS (NUM_INTERFACE_LEV NLEV))
                                 (LastVecEnd VS (NUM_INTERFACE_LEV NLEV));
                  pnh_i_last = fl (pnh_last + fl (dp_last / 2));
                  r = r(LastPack VS (NUM_INTERFACE_LEV NLEV) :=
                        (r (LastPack VS (NUM_INTERFACE_LEV NLEV)))
                          (LastVecEnd VS (NUM_INTERFACE_LEV NLEV) :=
                             fdiv fl (fl (2 * fl (pnh_i_last - pnh_last))) dp_last))
              in Inr r)))"

section \<open>RemapStateProvider\<close>

text \<open>
  \<^verbatim>\<open>int num_states_remap() const { return 5;}\<close>
\<close>

definition num_states_remap :: int where
  "num_states_remap = 5"

text \<open>
  \<^verbatim>\<open>is_intrinsic_state\<close>: the \<^verbatim>\<open>assert\<close> on the index is compiled out
  when \<^verbatim>\<open>NDEBUG\<close> is defined.
\<close>

definition is_intrinsic_state :: "build \<Rightarrow> int \<Rightarrow> error + bool" where
  "is_intrinsic_state b istate =
     (if \<not> NDEBUG b \<and> \<not> (istate \<ge> 0 \<and> istate < num_states_remap) then Inl AssertFailed
      else if istate = 3 \<or> istate = 4 then Inr True
      else Inr False)"

section \<open>IOP forcing: subsidence\<close>

text \<open>
  \<^verbatim>\<open>advance_iop_subsidence\<close> works on views of packs and on their scalarized
  aliases (\<^verbatim>\<open>ekat::scalarize\<close>) at once: lane \<open>i\<close> of pack \<open>k\<close> is the
  entry \<open>k * Pack::n + i\<close> of the scalarized view. The model keeps the scalarized
  view, a function of the level index, and runs the loops over the packs and their lanes.
  Modelled from the spec: \<^verbatim>\<open>ekat::range\<close>, \<^verbatim>\<open>ekat::index_and_shift\<close>,
  \<^verbatim>\<open>Pack::set\<close> and the \<^verbatim>\<open>ColumnOps::compute_midpoint_delta\<close> of
  \<^verbatim>\<open>scream_column_ops.hpp\<close> are not among the sources. \<^verbatim>\<open>range(b)\<close> is the
  pack of the indices \<open>b, b+1, ...\<close>; \<^verbatim>\<open>index_and_shift<S>(a, i0, x, y)\<close> reads
  \<open>x[i] = a(i0[i])\<close> and \<open>y[i] = a(i0[i] + S)\<close>; \<^verbatim>\<open>p.set(mask, v)\<close> writes the
  lanes of \<open>v\<close> where the mask holds; and the midpoint delta of \<open>n\<close> levels is
  \<open>x(k+1) - x(k)\<close> for \<open>k = 0, ..., n-1\<close> (the source's comment:
  \<^verbatim>\<open>u(k+1) - u(k), k=0,...,nlevs-2\<close>), the other entries of the workspace slot
  keeping what they held.
\<close>

type_synonym sview = "int \<Rightarrow> Real"

definition index_and_shift :: "int \<Rightarrow> sview \<Rightarrow> int \<Rightarrow> Real \<times> Real" where
  "index_and_shift Shift a i0i = (a i0i, a (i0i + Shift))"

definition scream_compute_midpoint_delta :: "int \<Rightarrow> sview \<Rightarrow> sview \<Rightarrow> sview" where
  "scream_compute_midpoint_delta num_mid_levels x_i dx_m =
     (\<lambda>k. if 0 \<le> k \<and> k < num_mid_levels then x_i (k + 1) - x_i k else dx_m k)"

text \<open>The lanes of the packs \<open>pack_begin, ..., pack_end - 1\<close>, in the loop's order.\<close>

definition pack_lanes :: "int \<Rightarrow> int \<Rightarrow> int \<Rightarrow> int list" where
  "pack_lanes Pack_n pack_begin pack_end =
     concat (map (\<lambda>k. map (\<lambda>i. k * Pack_n + i) [0..Pack_n - 1]) [pack_begin..pack_end - 1])"

text \<open>One lane of the loop that interpolates \<open>omega\<close> to the interfaces.\<close>

definition omega_int_lane ::
  "int \<Rightarrow> sview \<Rightarrow> sview \<Rightarrow> sview \<Rightarrow> int \<Rightarrow> sview \<Rightarrow> sview" where
  "omega_int_lane nlevs pmid pint omega j omega_int =
     (let range_pack = j;
          range_pack = (if range_pack < 1 then 1 else range_pack);
          (pmid_k, pmid_km1) = index_and_shift (- 1) pmid range_pack;
          (omega_k, omega_km1) = index_and_shift (- 1) omega range_pack;
          weight = (pint j - pmid_km1) / (pmid_k - pmid_km1)
      in if range_pack \<ge> 1 \<and> range_pack \<le> nlevs - 1
         then omega_int(j := weight * omega_k + (1 - weight) * omega_km1)
         else omega_int)"

text \<open>
  One lane of the update of one quantity: the three \<^verbatim>\<open>set\<close> calls on
  \<^verbatim>\<open>u(k)\<close>, each reading the pack as the one before left it.
\<close>

definition update_lane ::
  "int \<Rightarrow> int \<Rightarrow> Real \<Rightarrow> Real \<Rightarrow> Real \<Rightarrow> Real \<Rightarrow> Real \<Rightarrow> sview \<Rightarrow> sview" where
  "update_lane nlevs j fac omega_int_k omega_int_kp1 delta_k delta_km1 u =
     (let at_top = (j = 0);
          at_bot = (j = nlevs - 1);
          u = (if at_top then u(j := u j - fac * omega_int_kp1 * delta_k) else u);
          u = (if at_bot then u(j := u j - fac * omega_int_k * delta_km1) else u);
          u = (if \<not> at_top \<and> \<not> at_bot
               then u(j := u j - fac * (omega_int_kp1 * delta_k + omega_int_k * delta_km1))
               else u)
      in u)"

text \<open>The four prognostic arguments \<^verbatim>\<open>u\<close>, \<^verbatim>\<open>v\<close>, \<^verbatim>\<open>T\<close> and \<^verbatim>\<open>Q\<close>.\<close>

record iop_state =
  iop_u :: sview
  iop_v :: sview
  iop_T :: sview
  iop_Q :: "int \<Rightarrow> sview"

definition subsidence_lane ::
  "int \<Rightarrow> int \<Rightarrow> Real \<Rightarrow> Real \<Rightarrow> Real \<Rightarrow> sview \<Rightarrow> sview \<Rightarrow> sview \<Rightarrow> sview
   \<Rightarrow> sview \<Rightarrow> sview \<Rightarrow> sview \<Rightarrow> (int \<Rightarrow> sview) \<Rightarrow> int \<Rightarrow> iop_state \<Rightarrow> iop_state" where
  "subsidence_lane nlevs n_q_tracers dt Rair Cpair pmid pdel omega omega_int
     delta_u delta_v delta_T delta_Q j st =
     (let range_pack = j;
          range_pack_m1 = (if range_pack < 1 then 1 else range_pack);
          (delta_u_k, delta_u_km1) = index_and_shift (- 1) delta_u range_pack_m1;
          (delta_v_k, delta_v_km1) = index_and_shift (- 1) delta_v range_pack_m1;
          (delta_T_k, delta_T_km1) = index_and_shift (- 1) delta_T range_pack_m1;
          (omega_int_k, omega_int_kp1) = index_and_shift 1 omega_int range_pack;
          fac = dt / (2 * pdel j);
          u' = update_lane nlevs j fac omega_int_k omega_int_kp1 delta_u_k delta_u_km1 (iop_u st);
          v' = update_lane nlevs j fac omega_int_k omega_int_kp1 delta_v_k delta_v_km1 (iop_v st);
          T_k = iop_T st j;
          at_top = (j = 0);
          at_bot = (j = nlevs - 1);
          T' = iop_T st;
          T' = (if at_top then T'(j := T_k - fac * omega_int_kp1 * delta_T_k) else T');
          T' = (if at_bot then T'(j := T_k - fac * omega_int_k * delta_T_km1) else T');
          T' = (if \<not> at_top \<and> \<not> at_bot
                then T'(j := T_k - fac * (omega_int_kp1 * delta_T_k + omega_int_k * delta_T_km1))
                else T');
          T' = T'(j := T' j + dt * omega j * T_k * Rair / (Cpair * pmid j));
          Q' = fold (\<lambda>iq Q'.
                  let (delta_tracer_k, delta_tracer_km1) =
                        index_and_shift (- 1) (delta_Q iq) range_pack_m1
                  in Q'(iq := update_lane nlevs j fac omega_int_k omega_int_kp1
                                delta_tracer_k delta_tracer_km1 (Q' iq)))
                 [0..n_q_tracers - 1] (iop_Q st)
      in \<lparr>iop_u = u', iop_v = v', iop_T = T', iop_Q = Q'\<rparr>)"

text \<open>
  \<^verbatim>\<open>advance_iop_subsidence\<close>. \<open>Pack_n\<close> is \<^verbatim>\<open>Pack::n\<close>; \<open>ws_omega_int\<close>,
  \<open>ws_delta_u\<close>, ... are the contents of the workspace slots when they are taken.
\<close>

definition advance_iop_subsidence ::
  "int \<Rightarrow> int \<Rightarrow> int \<Rightarrow> Real \<Rightarrow> Real \<Rightarrow> Real \<Rightarrow> sview \<Rightarrow> sview \<Rightarrow> sview \<Rightarrow> sview
   \<Rightarrow> sview \<Rightarrow> sview \<Rightarrow> sview \<Rightarrow> sview \<Rightarrow> (int \<Rightarrow> sview) \<Rightarrow> iop_state \<Rightarrow> iop_state" where
  "advance_iop_subsidence Pack_n nlevs n_q_tracers dt Rair Cpair pmid pint pdel omega
     ws_omega_int ws_delta_u ws_delta_v ws_delta_T ws_delta_Q st =
     (let nlev_packs = (nlevs + Pack_n - 1) div Pack_n;
          pack_begin = 1 div Pack_n;
          pack_end = (nlevs - 1) div Pack_n;
          omega_int = fold (omega_int_lane nlevs pmid pint omega)
                        (pack_lanes Pack_n pack_begin (pack_end + 1)) ws_omega_int;
          omega_int = omega_int(0 := 0);
          omega_int = omega_int((nlevs div Pack_n) * Pack_n + nlevs mod Pack_n := 0);
          delta_u = scream_compute_midpoint_delta (nlevs - 1) (iop_u st) ws_delta_u;
          delta_v = scream_compute_midpoint_delta (nlevs - 1) (iop_v st) ws_delta_v;
          delta_T = scream_compute_midpoint_delta (nlevs - 1) (iop_T st) ws_delta_T;
          delta_Q = (\<lambda>iq. if 0 \<le> iq \<and> iq < n_q_tracers
                          then scream_compute_midpoint_delta (nlevs - 1) (iop_Q st iq) (ws_delta_Q iq)
                          else ws_delta_Q iq)
      in fold (subsidence_lane nlevs n_q_tracers dt Rair Cpair pmid pdel omega omega_int
                 delta_u delta_v delta_T delta_Q)
           (pack_lanes Pack_n 0 nlev_packs) st)"

section \<open>Legacy-model entry points and the floating-point exception mask\<close>

text \<open>
  Modelled from the spec: \<^verbatim>\<open>get_enabled_fpes\<close>, \<^verbatim>\<open>disable_all_fpes\<close>,
  \<^verbatim>\<open>enable_fpes\<close> and \<^verbatim>\<open>enable_default_fpes\<close> are declared in
  \<^verbatim>\<open>scream_session.hpp\<close>, which is not among the sources. The process has a set of
  enabled floating-point exception traps, an \<^verbatim>\<open>int\<close> bit mask: reading it,
  clearing it, and adding the bits of a given mask or of the session's default mask
  (which depends on whether the build has FPEs) are what the four functions do.
  What the session's initialisation and the driver do is not known here: each is a
  function on the mask, and the state records the mask in force when each of them is
  entered.
\<close>

record fpe_state =
  enabled_fpes :: "32 word"
  entered_with :: "32 word list"

definition get_enabled_fpes :: "fpe_state \<Rightarrow> 32 word" where
  "get_enabled_fpes s = enabled_fpes s"

definition disable_all_fpes :: "fpe_state \<Rightarrow> fpe_state" where
  "disable_all_fpes s = s\<lparr>enabled_fpes := 0\<rparr>"

definition enable_fpes :: "32 word \<Rightarrow> fpe_state \<Rightarrow> fpe_state" where
  "enable_fpes mask' s = s\<lparr>enabled_fpes := enabled_fpes s OR mask'\<rparr>"

definition enable_default_fpes :: "32 word \<Rightarrow> fpe_state \<Rightarrow> fpe_state" where
  "enable_default_fpes default_fpes s = enable_fpes default_fpes s"

definition call_out :: "(32 word \<Rightarrow> 32 word) \<Rightarrow> fpe_state \<Rightarrow> fpe_state" where
  "call_out f s = \<lparr>enabled_fpes = f (enabled_fpes s),
                   entered_with = entered_with s @ [enabled_fpes s]\<rparr>"

definition scream_init ::
  "(32 word \<Rightarrow> 32 word) \<Rightarrow> (32 word \<Rightarrow> 32 word) \<Rightarrow> fpe_state \<Rightarrow> fpe_state" where
  "scream_init initialize_scream_session ad_initialize s =
     (let fpe_mask = get_enabled_fpes s;
          s = disable_all_fpes s;
          s = call_out initialize_scream_session s;
          s = call_out ad_initialize s;
          s = disable_all_fpes s;
          s = enable_fpes fpe_mask s
      in s)"

definition scream_run :: "32 word \<Rightarrow> (32 word \<Rightarrow> 32 word) \<Rightarrow> fpe_state \<Rightarrow> fpe_state" where
  "scream_run default_fpes ad_run s =
     (let fpe_mask = get_enabled_fpes s;
          s = disable_all_fpes s;
          s = enable_default_fpes default_fpes s;
          s = call_out ad_run s;
          s = disable_all_fpes s;
          s = enable_fpes fpe_mask s
      in s)"

definition scream_finalize :: "32 word \<Rightarrow> (32 word \<Rightarrow> 32 word) \<Rightarrow> fpe_state \<Rightarrow> fpe_state" where
  "scream_finalize default_fpes ad_finalize s =
     (let fpe_mask = get_enabled_fpes s;
          s = disable_all_fpes s;
          s = enable_default_fpes default_fpes s;
          s = call_out ad_finalize s;
          s = disable_all_fpes s;
          s = enable_fpes fpe_mask s
      in s)"

section \<open>I/O subsystem: output reductions\<close>

text \<open>
  Modelled from the spec: the output manager (\<^verbatim>\<open>output_manager.hpp\<close>,
  \<^verbatim>\<open>scorpio_output.hpp\<close>) is not among the sources; only its test is. The manager
  holds one output stream per output description, each with a reduction
  (\<^verbatim>\<open>Instant\<close>, \<^verbatim>\<open>Average\<close>, \<^verbatim>\<open>Max\<close>, \<^verbatim>\<open>Min\<close>; the last two carry
  a suffix here, the names being taken) and a cadence in steps. \<^verbatim>\<open>run\<close> is
  called once per host step and accumulates every field of the group "output" as the
  reduction says: a running sum and a count for the average, a running comparison for
  minimum and maximum, a copy for the instantaneous value; when the cadence has elapsed it
  writes the reduced fields to the file and starts again. The reductions range over the
  values sampled by the calls of \<^verbatim>\<open>run\<close> since the last write: the first sample
  starts the sum and the comparison. The fields of the group are flat host views, in
  registration order.
\<close>

datatype avg_type = Instant | Average | Max_type | Min_type

record output_stream =
  avg_type :: avg_type
  out_n :: nat
  nsteps :: nat
  local_views :: "Real list list"
  nc_file :: "Real list list option"

definition stream_init :: "avg_type \<Rightarrow> nat \<Rightarrow> output_stream" where
  "stream_init t n =
     \<lparr>avg_type = t, out_n = n, nsteps = 0, local_views = [], nc_file = None\<rparr>"

fun accumulate :: "avg_type \<Rightarrow> Real \<Rightarrow> Real \<Rightarrow> Real" where
  "accumulate Instant a x = x"
| "accumulate Average a x = a + x"
| "accumulate Max_type a x = max a x"
| "accumulate Min_type a x = min a x"

fun reduced :: "avg_type \<Rightarrow> nat \<Rightarrow> Real \<Rightarrow> Real" where
  "reduced Average n a = a / real n"
| "reduced t n a = a"

definition stream_run :: "Real list list \<Rightarrow> output_stream \<Rightarrow> output_stream" where
  "stream_run flds st =
     (let views = (if nsteps st = 0 then flds
                   else map2 (map2 (accumulate (avg_type st))) (local_views st) flds);
          n = nsteps st + 1
      in if n = out_n st
         then st\<lparr>nsteps := 0, local_views := [],
                 nc_file := Some (map (map (reduced (avg_type st) n)) views)\<rparr>
         else st\<lparr>nsteps := n, local_views := views\<rparr>)"

text \<open>
  The synthetic field. \<^verbatim>\<open>get_test_repo\<close> registers \<^verbatim>\<open>field_1\<close> (one value
  per column, \<open>ii\<close>), \<^verbatim>\<open>field_2\<close> (one per level, \<open>(jj+1)/10\<close>) and
  \<^verbatim>\<open>field_3\<close> (both, \<open>ii + (jj+1)/10\<close>) in the group "output". Sampled at a
  fixed time step, every entry has grown by \<open>k * dt\<close> at step \<open>k\<close>. The manager
  holds the four streams of \<^verbatim>\<open>get_om_params(1)\<close>, written once, when the \<open>N\<close>
  steps are done; \<^verbatim>\<open>run\<close> is called at the steps \<open>0, ..., N - 1\<close>, and the
  result is the content of the four files. (The loop of \<^verbatim>\<open>input_output_basic\<close>
  adds \<^verbatim>\<open>dt\<close> to every entry before it calls \<^verbatim>\<open>run\<close>: the samples it takes
  are those of the steps \<open>1, ..., N\<close> of the field it initialised.)
\<close>

definition get_test_repo :: "nat \<Rightarrow> nat \<Rightarrow> Real list list" where
  "get_test_repo num_cols num_levs =
     [map (\<lambda>ii. real ii) [0..<num_cols],
      map (\<lambda>jj. (real jj + 1) / 10) [0..<num_levs],
      concat (map (\<lambda>ii. map (\<lambda>jj. real ii + (real jj + 1) / 10) [0..<num_levs])
                [0..<num_cols])]"

definition field_at :: "Real list list \<Rightarrow> Real \<Rightarrow> nat \<Rightarrow> Real list list" where
  "field_at flds dt k = map (map (\<lambda>x. x + real k * dt)) flds"

definition run_steps :: "Real list list \<Rightarrow> Real \<Rightarrow> nat \<Rightarrow> Real list list option list" where
  "run_steps flds dt N =
     (let m_output_manager = map (\<lambda>t. stream_init t N) [Instant, Average, Max_type, Min_type];
          m_output_manager = fold (\<lambda>k om. map (stream_run (field_at flds dt k)) om)
                               [0..<N] m_output_manager
      in map nc_file m_output_manager)"

section \<open>Sample inputs\<close>

text \<open>
  Concrete builds and columns, for the witnesses and the counterexamples: a wide-vector
  build with packs of two lanes and three levels, a GPU build of the same column, a
  release build, the column \<open>1, 2, 3, ...\<close> packed for a given pack size, and the
  physical constants of the dynamical core.
\<close>

definition sample_simd_build :: build where
  "sample_simd_build = \<lparr>OnGpu = False, NDEBUG = False, XX_NONBFB_COMING = False,
                         VECTOR_SIZE = 2, NUM_PHYSICAL_LEV = 3\<rparr>"

definition sample_gpu_build :: build where
  "sample_gpu_build = \<lparr>OnGpu = True, NDEBUG = False, XX_NONBFB_COMING = False,
                        VECTOR_SIZE = 1, NUM_PHYSICAL_LEV = 3\<rparr>"

definition sample_release_build :: build where
  "sample_release_build = \<lparr>OnGpu = False, NDEBUG = True, XX_NONBFB_COMING = False,
                            VECTOR_SIZE = 2, NUM_PHYSICAL_LEV = 3\<rparr>"

definition packed :: "nat \<Rightarrow> (nat \<Rightarrow> Real) \<Rightarrow> view" where
  "packed VS col = (\<lambda>p l. col (p * VS + l))"

definition sample_column :: view where
  "sample_column = packed 2 (\<lambda>k. real k + 1)"

definition sample_column_gpu :: view where
  "sample_column_gpu = packed 1 (\<lambda>k. real k + 1)"

definition zero_view :: view where
  "zero_view = (\<lambda>p l. 0)"

definition one_view :: view where
  "one_view = (\<lambda>p l. 1)"

definition sample_hvcoord :: HybridVCoord where
  "sample_hvcoord = \<lparr>ps0 = 100000, hybrid_ai0 = 1 / 1000, hybrid_ai = (\<lambda>k. 1 / 1000),
                      m_inited = True\<rparr>"

definition sample_constants :: PhysicalConstants where
  "sample_constants = \<lparr>p0 = 100000, kappa = 28704 / 100500, Rgas = 28704 / 100,
                        Rwater_vapor = 4615 / 10, g = 980616 / 100000, cp = 1005\<rparr>"

definition two_view :: view where
  "two_view = (\<lambda>p l. 2)"

text \<open>
  Columns for the bottom extrapolation in double precision: a bottom pressure of
  \<open>99000\<close> over the thickness \<open>8796972631510221 / 2^43\<close>, the
  \<^verbatim>\<open>double\<close> nearest to \<open>1000.1\<close>, and a pressure of \<open>10^17\<close>, which a
  thickness of 2 is too thin to change.
\<close>

definition surface_view :: view where
  "surface_view = (\<lambda>p l. 99000)"

definition thickness_view :: view where
  "thickness_view = (\<lambda>p l. 8796972631510221 / 2 ^ 43)"

definition heavy_view :: view where
  "heavy_view = (\<lambda>p l. 10 ^ 17)"

definition sample_eos_hydrostatic :: EquationOfState where
  "sample_eos_hydrostatic = \<lparr>m_theta_hydrostatic_mode = True, m_hvcoord = sample_hvcoord\<rparr>"

definition sample_eos_nonhydrostatic :: EquationOfState where
  "sample_eos_nonhydrostatic = \<lparr>m_theta_hydrostatic_mode = False, m_hvcoord = sample_hvcoord\<rparr>"

text \<open>
  A column of three levels for the subsidence: midpoint pressures \<open>1, 2, 3\<close>,
  interface pressures half a unit above them, unit thickness and unit \<open>omega\<close>, the
  wind \<open>0, 1, 3\<close>, nothing else moving, and empty workspace slots.
\<close>

definition iop_pmid :: sview where
  "iop_pmid = (\<lambda>k. of_int k + 1)"

definition iop_pint :: sview where
  "iop_pint = (\<lambda>k. of_int k + 1 / 2)"

definition iop_ones :: sview where
  "iop_ones = (\<lambda>k. 1)"

definition iop_zeros :: sview where
  "iop_zeros = (\<lambda>k. 0)"

definition iop_u_in :: sview where
  "iop_u_in = (\<lambda>k. if k = 1 then 1 else if k = 2 then 3 else 0)"

definition iop_state_in :: iop_state where
  "iop_state_in = \<lparr>iop_u = iop_u_in, iop_v = iop_zeros, iop_T = iop_zeros, iop_Q = (\<lambda>iq. iop_zeros)\<rparr>"

section \<open>Proof vocabulary\<close>

text \<open>The inner loop of the exclusive or inclusive scan over the lanes of one pack.\<close>

definition scan_lanes :: "(nat \<Rightarrow> Real) \<Rightarrow> nat \<Rightarrow> Scalar \<Rightarrow> Scalar" where
  "scan_lanes c ve sv = fold (\<lambda>iv sv. sv(iv := sv (iv - 1) + c iv)) [1..<ve + 1] sv"

text \<open>The last lane the scan visits in a pack.\<close>

definition vec_end_of :: "nat \<Rightarrow> nat \<Rightarrow> nat \<Rightarrow> nat" where
  "vec_end_of VS LEN ilev = (if ilev = LastPack VS LEN then LastPackEnd VS LEN else VECTOR_END VS)"

text \<open>
  The invariant of the forward exclusive scan after \<open>m\<close> packs: every visited entry is
  its predecessor plus the predecessor's input, the running integral is what the next
  pack starts from, and the packs not yet visited are untouched.
\<close>

definition scan_inv ::
  "nat \<Rightarrow> nat \<Rightarrow> view \<Rightarrow> Real \<Rightarrow> view \<Rightarrow> nat \<Rightarrow> view \<Rightarrow> Real \<Rightarrow> bool" where
  "scan_inv VS LEN inp sI sumI m S I =
     ((\<forall>p<m. S p 0 = (if p = 0 then sI
                       else S (p - 1) (vec_end_of VS LEN (p - 1))
                            + inp (p - 1) (vec_end_of VS LEN (p - 1))))
      \<and> (\<forall>p<m. \<forall>l. 1 \<le> l \<and> l \<le> vec_end_of VS LEN p \<longrightarrow>
                   S p l = S p (l - 1) + inp p (l - 1))
      \<and> I = (if m = 0 then sI
             else S (m - 1) (vec_end_of VS LEN (m - 1))
                  + inp (m - 1) (vec_end_of VS LEN (m - 1)))
      \<and> (\<forall>p\<ge>m. S p = sumI p))"

text \<open>The accumulator of the GPU scan after \<open>m\<close> entries.\<close>

definition gpu_acc :: "view \<Rightarrow> Real \<Rightarrow> nat \<Rightarrow> Real" where
  "gpu_acc inp sI m = (\<Sum>j<m. inp j 0) + sI"

text \<open>
  What a stream holds for an entry that starts at \<open>x\<close>, after the samples of the
  steps \<open>0, ..., m - 1\<close> of a field growing by \<open>dt \<ge> 0\<close> per step, and the stream
  itself.
\<close>

definition reduction_after :: "avg_type \<Rightarrow> real \<Rightarrow> nat \<Rightarrow> real \<Rightarrow> real" where
  "reduction_after t dt m x =
     (case t of Instant \<Rightarrow> x + real (m - 1) * dt
              | Average \<Rightarrow> (\<Sum>k<m. x + real k * dt)
              | Max_type \<Rightarrow> x + real (m - 1) * dt
              | Min_type \<Rightarrow> x)"

definition stream_after ::
  "avg_type \<Rightarrow> nat \<Rightarrow> real list list \<Rightarrow> real \<Rightarrow> nat \<Rightarrow> output_stream" where
  "stream_after t n flds dt m =
     \<lparr>avg_type = t, out_n = n, nsteps = m,
      local_views = (if m = 0 then [] else map (map (reduction_after t dt m)) flds),
      nc_file = None\<rparr>"

section \<open>Properties\<close>

subsection \<open>Remap state adapter\<close>

text \<open>
  C7. RemapStateProvider reports exactly 5 remappable state variables, and
  \<open>is_intrinsic_state i\<close> answers true for the two horizontal-velocity indices 3 and 4
  and false for 0, 1 and 2, in every build.
\<close>

theorem C7_intrinsic_states:
  "num_states_remap = 5
   \<and> is_intrinsic_state b 3 = Inr True
   \<and> is_intrinsic_state b 4 = Inr True
   \<and> is_intrinsic_state b 0 = Inr False
   \<and> is_intrinsic_state b 1 = Inr False
   \<and> is_intrinsic_state b 2 = Inr False"
  by (simp add: num_states_remap_def is_intrinsic_state_def)

subsection \<open>Packs, levels and loops\<close>

lemma NumPacks_eq: "1 \<le> VS \<Longrightarrow> 1 \<le> N \<Longrightarrow> NumPacks VS N = (N - 1) div VS + 1"
proof -
  assume a: "1 \<le> VS" "1 \<le> N"
  then obtain m where m: "N = Suc m" by (cases N) auto
  have "(m + VS) div VS = m div VS + 1" using a by simp
  then show ?thesis by (simp add: NumPacks_def m)
qed

lemma LastPack_eq: "1 \<le> VS \<Longrightarrow> 1 \<le> N \<Longrightarrow> LastPack VS N = (N - 1) div VS"
  by (simp add: LastPack_def NumPacks_eq)

lemma LastPackEnd_eq: "1 \<le> VS \<Longrightarrow> 1 \<le> N \<Longrightarrow> LastPackEnd VS N = (N - 1) mod VS"
proof -
  assume a: "1 \<le> VS" "1 \<le> N"
  have "(N - 1) div VS * VS + (N - 1) mod VS = N - 1" by simp
  then have "N = (N - 1) div VS * VS + (N - 1) mod VS + 1" using a by linarith
  then have "N - (N - 1) div VS * VS - 1 = (N - 1) mod VS" by linarith
  then show ?thesis using a by (simp add: LastPackEnd_def LastPackLen_def LastPack_eq)
qed

lemma fold_upd_range:
  assumes "\<And>i v. F i v = v(i := G i (v i))"
  shows "fold F [a..<b] v0 = (\<lambda>p. if a \<le> p \<and> p < b then G p (v0 p) else v0 p)"
proof (induction b)
  case 0
  then show ?case by simp
next
  case (Suc b)
  show ?case
  proof (cases "a \<le> b")
    case True
    then have "[a..<Suc b] = [a..<b] @ [b]" by simp
    then show ?thesis using Suc by (auto simp: fun_eq_iff assms)
  next
    case False
    then show ?thesis by (auto simp: fun_eq_iff)
  qed
qed

lemma div_mod_Suc:
  assumes "1 \<le> VS"
  shows "(if Suc j mod VS = 0 then j div VS = Suc j div VS - 1 \<and> j mod VS = VS - 1
          else j div VS = Suc j div VS \<and> j mod VS = Suc j mod VS - 1)"
  using assms by (auto simp: div_Suc mod_Suc split: if_splits)

lemma flat_pred:
  assumes "1 \<le> VS" "0 < k"
  shows "flat VS v (k - 1) = (if k mod VS = 0 then v (k div VS - 1) (VS - 1) else v (k div VS) (k mod VS - 1))"
proof -
  obtain j where j: "k = Suc j" using assms by (cases k) auto
  show ?thesis using div_mod_Suc[OF assms(1), of j] unfolding j flat_def
    by (simp split: if_splits)
qed

lemma civ_simd_loop:
  "fold (\<lambda>ilev x_i.
                   let tmp = x_m ilev;
                       tmp = shift_right 1 tmp;
                       tmp = tmp(0 := x_m (ilev - 1) (VECTOR_END VS));
                       tmp = (\<lambda>iv. tmp iv + x_m ilev iv);
                       tmp = (\<lambda>iv. tmp iv / 2)
                   in x_i(ilev := combine_pack CM tmp (x_i ilev) alpha beta))
                [1..<n] x_i
   = (\<lambda>p. if 1 \<le> p \<and> p < n
            then combine_pack CM (\<lambda>iv. ((if iv = 0 then x_m (p - 1) (VECTOR_END VS) else x_m p (iv - 1)) + x_m p iv) / 2) (x_i p) alpha beta
            else x_i p)"
  by (rule fold_upd_range) (simp add: Let_def shift_right_def fun_eq_iff combine_pack_def)

lemma civ_simd_Replace_lane:
  "compute_interface_values_simd VS NLEV Replace x_m x_i alpha beta p l =
     (if p = LastPack VS (NUM_INTERFACE_LEV NLEV) \<and> l = LastPackEnd VS (NUM_INTERFACE_LEV NLEV)
      then x_m (LastPack VS NLEV) (LastPackEnd VS NLEV)
      else if p = 0 \<and> l = 0 then x_m 0 0
      else if p = 0 then (x_m 0 (l - 1) + x_m 0 l) / 2
      else if p < NUM_LEV VS NLEV
           then ((if l = 0 then x_m (p - 1) (VECTOR_END VS) else x_m p (l - 1)) + x_m p l) / 2
      else x_i p l)"
  apply (simp only: compute_interface_values_simd_def civ_simd_loop)
  apply (simp add: Let_def set_lane_def combine_pack_def shift_right_def)
  done

lemma interface_last:
  assumes "1 \<le> VS"
  shows "LastPack VS (NUM_INTERFACE_LEV NLEV) = NLEV div VS"
    and "LastPackEnd VS (NUM_INTERFACE_LEV NLEV) = NLEV mod VS"
  using assms by (simp_all add: NUM_INTERFACE_LEV_def LastPack_eq LastPackEnd_eq)

lemma div_mod_inj: "1 \<le> VS \<Longrightarrow> k div VS = j div VS \<Longrightarrow> k mod VS = j mod VS \<Longrightarrow> k = (j::nat)"
  by (metis div_mult_mod_eq)

lemma civ_simd_Replace:
  assumes "1 \<le> VS" "1 \<le> NLEV"
  shows "flat VS (compute_interface_values_simd VS NLEV Replace x_m x_i alpha beta) 0 = flat VS x_m 0"
    and "flat VS (compute_interface_values_simd VS NLEV Replace x_m x_i alpha beta) NLEV = flat VS x_m (NLEV - 1)"
    and "0 < k \<Longrightarrow> k < NLEV \<Longrightarrow>
         flat VS (compute_interface_values_simd VS NLEV Replace x_m x_i alpha beta) k
           = (flat VS x_m k + flat VS x_m (k - 1)) / 2"
proof -
  have ne: "NLEV \<noteq> 0" using assms by simp
  have nz: "\<not> (NLEV div VS = 0 \<and> NLEV mod VS = 0)"
    using ne by (metis div_mult_mod_eq add.right_neutral mult_zero_left)
  show "flat VS (compute_interface_values_simd VS NLEV Replace x_m x_i alpha beta) 0 = flat VS x_m 0"
    using assms nz by (auto simp: flat_def civ_simd_Replace_lane interface_last)
  show "flat VS (compute_interface_values_simd VS NLEV Replace x_m x_i alpha beta) NLEV = flat VS x_m (NLEV - 1)"
    using assms by (simp add: flat_def civ_simd_Replace_lane interface_last LastPack_eq LastPackEnd_eq)
  assume k: "0 < k" "k < NLEV"
  have neq: "\<not> (k div VS = NLEV div VS \<and> k mod VS = NLEV mod VS)"
    using k div_mod_inj[OF assms(1), of k NLEV] by auto
  have nz': "\<not> (k div VS = 0 \<and> k mod VS = 0)"
    using k by (metis div_mult_mod_eq add.right_neutral mult_zero_left less_irrefl)
  have "k div VS \<le> (NLEV - 1) div VS" using k by (simp add: div_le_mono)
  then have lt: "k div VS < NUM_LEV VS NLEV" using assms by (simp add: NUM_LEV_def NumPacks_eq)
  show "flat VS (compute_interface_values_simd VS NLEV Replace x_m x_i alpha beta) k
           = (flat VS x_m k + flat VS x_m (k - 1)) / 2"
    using neq nz' lt flat_pred[OF assms(1) k(1), of x_m]
    by (auto simp: flat_def civ_simd_Replace_lane interface_last[OF assms(1)] VECTOR_END_def)
qed

lemma civ_gpu_Replace_lane:
  "compute_interface_values_gpu NLEV Replace x_m x_i alpha beta p l =
     (if p = NLEV then x_m (NLEV - 1) l
      else if p = 0 then x_m 0 l
      else if p < NLEV then (x_m p l + x_m (p - 1) l) / 2
      else x_i p l)"
proof -
  have loop: "fold (\<lambda>ilev x_i.
                   let tmp = (\<lambda>iv. (x_m ilev iv + x_m (ilev - 1) iv) / 2)
                   in x_i(ilev := combine_pack Replace tmp (x_i ilev) alpha beta))
                [1..<NLEV] x_i
     = (\<lambda>p. if 1 \<le> p \<and> p < NLEV then (\<lambda>iv. (x_m p iv + x_m (p - 1) iv) / 2) else x_i p)"
    by (rule fold_upd_range) (simp add: Let_def fun_eq_iff combine_pack_def)
  show ?thesis
    apply (simp only: compute_interface_values_gpu_def loop)
    apply (simp add: Let_def combine_pack_def NUM_INTERFACE_LEV_def)
    done
qed

lemma debug_sanity_check_defaults [simp]: "debug_sanity_check b Replace 1 0 = Inr ()"
  by (simp add: debug_sanity_check_def sanity_check_def runtime_check_def)

text \<open>
  C10. In every well-formed build, on either code path, the unweighted
  \<^verbatim>\<open>compute_interface_values\<close> in mode \<^verbatim>\<open>Replace\<close> (with the default
  \<open>alpha = 1\<close>, \<open>beta = 0\<close>) returns without error, and the interface column it leaves
  has the first midpoint value at the top interface, the last midpoint value at the
  bottom interface (copies, not averages), and at every interior interface
  \<open>0 < k < NUM_PHYSICAL_LEV\<close> the mean of the two midpoint values around it.
\<close>

theorem C10_interface_values_replace:
  assumes "wf_build b"
  shows "\<exists>r. compute_interface_values b Replace x_m x_i 1 0 = Inr r
           \<and> flat (VECTOR_SIZE b) r 0 = flat (VECTOR_SIZE b) x_m 0
           \<and> flat (VECTOR_SIZE b) r (NUM_PHYSICAL_LEV b)
               = flat (VECTOR_SIZE b) x_m (NUM_PHYSICAL_LEV b - 1)
           \<and> (\<forall>k. 0 < k \<and> k < NUM_PHYSICAL_LEV b \<longrightarrow>
                 flat (VECTOR_SIZE b) r k
                   = (flat (VECTOR_SIZE b) x_m k + flat (VECTOR_SIZE b) x_m (k - 1)) / 2)"
proof (cases "OnGpu b")
  case True
  then have vs: "VECTOR_SIZE b = 1" and nl: "1 \<le> NUM_PHYSICAL_LEV b"
    using assms by (simp_all add: wf_build_def)
  show ?thesis using True nl
    by (auto simp: compute_interface_values_def vs flat_def civ_gpu_Replace_lane)
next
  case False
  have vs: "1 \<le> VECTOR_SIZE b" and nl: "1 \<le> NUM_PHYSICAL_LEV b"
    using assms by (simp_all add: wf_build_def)
  show ?thesis using False civ_simd_Replace[OF vs nl, where x_m=x_m and x_i=x_i and alpha=1 and beta=0]
    by (simp add: compute_interface_values_def)
qed

lemma wf_sample_simd_build: "wf_build sample_simd_build"
  by (simp add: wf_build_def sample_simd_build_def)

text \<open>
  The wide-vector build with two lanes and three levels on the column \<open>1, 2, 3\<close>:
  the interfaces are \<open>1, 3/2, 5/2, 3\<close>.
\<close>

theorem C10_interface_values_replace_witness:
  "\<exists>r. compute_interface_values sample_simd_build Replace sample_column zero_view 1 0 = Inr r
       \<and> flat 2 r 0 = 1 \<and> flat 2 r 1 = 3 / 2 \<and> flat 2 r 2 = 5 / 2 \<and> flat 2 r 3 = 3"
proof -
  obtain r where r: "compute_interface_values sample_simd_build Replace sample_column zero_view 1 0 = Inr r"
      "flat 2 r 0 = flat 2 sample_column 0"
      "flat 2 r 3 = flat 2 sample_column 2"
      "\<forall>k. 0 < k \<and> k < 3 \<longrightarrow> flat 2 r k = (flat 2 sample_column k + flat 2 sample_column (k - 1)) / 2"
    using C10_interface_values_replace[OF wf_sample_simd_build, of sample_column zero_view]
    by (auto simp: sample_simd_build_def)
  have "flat 2 r 1 = 3 / 2" "flat 2 r 2 = 5 / 2"
    using r(4)[rule_format, of 1] r(4)[rule_format, of 2]
    by (simp_all add: flat_def sample_column_def packed_def)
  moreover have "flat 2 r 0 = 1" "flat 2 r 3 = 3"
    using r(2,3) by (simp_all add: flat_def sample_column_def packed_def)
  ultimately show ?thesis using r(1) by simp
qed

lemma scan_lanes_Suc: "scan_lanes c (Suc ve) sv = (scan_lanes c ve sv)(Suc ve := scan_lanes c ve sv ve + c (Suc ve))"
  by (simp add: scan_lanes_def)

lemma scan_lanes_0: "scan_lanes c ve sv 0 = sv 0"
  by (induction ve) (simp_all add: scan_lanes_Suc, simp add: scan_lanes_def)

lemma scan_lanes_above: "ve < iv \<Longrightarrow> scan_lanes c ve sv iv = sv iv"
  by (induction ve) (simp_all add: scan_lanes_Suc, simp add: scan_lanes_def)

lemma scan_lanes_step: "1 \<le> iv \<Longrightarrow> iv \<le> ve \<Longrightarrow> scan_lanes c ve sv iv = scan_lanes c ve sv (iv - 1) + c iv"
proof (induction ve)
  case 0
  then show ?case by simp
next
  case (Suc ve)
  show ?case
  proof (cases "iv = Suc ve")
    case True
    then show ?thesis by (simp add: scan_lanes_Suc)
  next
    case False
    then have le: "iv \<le> ve" using Suc.prems by simp
    then have "iv - 1 \<noteq> Suc ve" by simp
    then show ?thesis using Suc le False by (simp add: scan_lanes_Suc)
  qed
qed

lemma fwd_pack_excl_eq:
  "column_scan_fwd_pack VS False LEN inp ilev (S, I) =
     (S(ilev := scan_lanes (\<lambda>iv. inp ilev (iv - 1)) (vec_end_of VS LEN ilev) ((S ilev)(0 := I))),
      scan_lanes (\<lambda>iv. inp ilev (iv - 1)) (vec_end_of VS LEN ilev) ((S ilev)(0 := I)) (vec_end_of VS LEN ilev)
        + inp ilev (vec_end_of VS LEN ilev))"
  by (simp add: column_scan_fwd_pack_def Let_def vec_end_of_def scan_lanes_def)

lemma scan_inv_fold:
  "scan_inv VS LEN inp sI sumI m
     (fst (fold (column_scan_fwd_pack VS False LEN inp) [0..<m] (sumI, sI)))
     (snd (fold (column_scan_fwd_pack VS False LEN inp) [0..<m] (sumI, sI)))"
proof (induction m)
  case 0
  show ?case by (simp add: scan_inv_def)
next
  case (Suc m)
  obtain S I where st: "fold (column_scan_fwd_pack VS False LEN inp) [0..<m] (sumI, sI) = (S, I)"
    by (cases "fold (column_scan_fwd_pack VS False LEN inp) [0..<m] (sumI, sI)") auto
  let ?ve = "vec_end_of VS LEN"
  let ?sv = "scan_lanes (\<lambda>iv. inp m (iv - 1)) (?ve m) ((S m)(0 := I))"
  have new: "fold (column_scan_fwd_pack VS False LEN inp) [0..<Suc m] (sumI, sI)
               = (S(m := ?sv), ?sv (?ve m) + inp m (?ve m))"
    by (simp add: st fwd_pack_excl_eq)
  have inv: "scan_inv VS LEN inp sI sumI m S I" using Suc st by simp
  have a: "\<And>p. p < m \<Longrightarrow> S p 0 = (if p = 0 then sI else S (p - 1) (?ve (p - 1)) + inp (p - 1) (?ve (p - 1)))"
    using inv by (simp add: scan_inv_def)
  have b: "\<And>p l. p < m \<Longrightarrow> 1 \<le> l \<Longrightarrow> l \<le> ?ve p \<Longrightarrow> S p l = S p (l - 1) + inp p (l - 1)"
    using inv by (simp add: scan_inv_def)
  have c: "I = (if m = 0 then sI else S (m - 1) (?ve (m - 1)) + inp (m - 1) (?ve (m - 1)))"
    using inv by (simp add: scan_inv_def)
  have d: "\<And>p. m \<le> p \<Longrightarrow> S p = sumI p"
    using inv by (simp add: scan_inv_def)
  have sv: "?sv 0 = I" by (simp add: scan_lanes_0)
  have svl: "\<And>l. 1 \<le> l \<Longrightarrow> l \<le> ?ve m \<Longrightarrow> ?sv l = ?sv (l - 1) + inp m (l - 1)"
    by (rule scan_lanes_step)
  have A: "\<forall>p<Suc m. (S(m := ?sv)) p 0 = (if p = 0 then sI
              else (S(m := ?sv)) (p - 1) (?ve (p - 1)) + inp (p - 1) (?ve (p - 1)))"
  proof (intro allI impI)
    fix p assume p: "p < Suc m"
    show "(S(m := ?sv)) p 0 = (if p = 0 then sI
              else (S(m := ?sv)) (p - 1) (?ve (p - 1)) + inp (p - 1) (?ve (p - 1)))"
    proof (cases "p = m")
      case True
      then show ?thesis using sv c by (cases m) auto
    next
      case False
      then have "p < m" using p by simp
      then show ?thesis using a[of p] False by (cases p) auto
    qed
  qed
  have B: "\<forall>p<Suc m. \<forall>l. 1 \<le> l \<and> l \<le> ?ve p \<longrightarrow>
              (S(m := ?sv)) p l = (S(m := ?sv)) p (l - 1) + inp p (l - 1)"
  proof (intro allI impI)
    fix p l assume p: "p < Suc m" and l: "1 \<le> l \<and> l \<le> ?ve p"
    show "(S(m := ?sv)) p l = (S(m := ?sv)) p (l - 1) + inp p (l - 1)"
    proof (cases "p = m")
      case True
      then show ?thesis using svl[of l] l by simp
    next
      case False
      then have "p < m" using p by simp
      then show ?thesis using b[of p l] l False by simp
    qed
  qed
  have C: "?sv (?ve m) + inp m (?ve m)
             = (S(m := ?sv)) (Suc m - 1) (?ve (Suc m - 1)) + inp (Suc m - 1) (?ve (Suc m - 1))"
    by simp
  have D: "\<forall>p\<ge>Suc m. (S(m := ?sv)) p = sumI p" using d by simp
  show ?case unfolding new fst_conv snd_conv scan_inv_def
    using A B C D by (intro conjI) simp_all
qed

lemma vec_end_of_interface:
  "1 \<le> VS \<Longrightarrow> vec_end_of VS (Suc NLEV) p = (if p = NLEV div VS then NLEV mod VS else VS - 1)"
  by (simp add: vec_end_of_def LastPack_eq LastPackEnd_eq VECTOR_END_def)

lemma mod_le_same_div:
  assumes "1 \<le> VS" "j \<le> (n::nat)" "j div VS = n div VS"
  shows "j mod VS \<le> n mod VS"
proof -
  have "j = j div VS * VS + j mod VS" "n = n div VS * VS + n mod VS" by simp_all
  then show ?thesis using assms by (metis add_le_cancel_left)
qed

lemma scan_simd_fwd_excl:
  assumes vs: "1 \<le> VS"
  shows "flat VS (column_scan_impl_simd VS True False (Suc NLEV) inp sumI sI) 0 = sI"
    and "k < NLEV \<Longrightarrow>
         flat VS (column_scan_impl_simd VS True False (Suc NLEV) inp sumI sI) (k + 1)
           = flat VS (column_scan_impl_simd VS True False (Suc NLEV) inp sumI sI) k + flat VS inp k"
proof -
  let ?m = "NumPacks VS (Suc NLEV)"
  let ?S = "fst (fold (column_scan_fwd_pack VS False (Suc NLEV) inp) [0..<?m] (sumI, sI))"
  let ?I = "snd (fold (column_scan_fwd_pack VS False (Suc NLEV) inp) [0..<?m] (sumI, sI))"
  let ?ve = "vec_end_of VS (Suc NLEV)"
  have r: "column_scan_impl_simd VS True False (Suc NLEV) inp sumI sI = ?S"
    by (simp add: column_scan_impl_simd_def)
  have m: "?m = NLEV div VS + 1" using vs by (simp add: NumPacks_eq)
  have inv: "scan_inv VS (Suc NLEV) inp sI sumI ?m ?S ?I" by (rule scan_inv_fold)
  have a: "\<And>p. p < ?m \<Longrightarrow> ?S p 0 = (if p = 0 then sI else ?S (p - 1) (?ve (p - 1)) + inp (p - 1) (?ve (p - 1)))"
    using inv unfolding scan_inv_def by blast
  have b: "\<And>p l. p < ?m \<Longrightarrow> 1 \<le> l \<Longrightarrow> l \<le> ?ve p \<Longrightarrow> ?S p l = ?S p (l - 1) + inp p (l - 1)"
    using inv unfolding scan_inv_def by blast
  show "flat VS (column_scan_impl_simd VS True False (Suc NLEV) inp sumI sI) 0 = sI"
    unfolding r flat_def using a[of 0] m by simp
  assume k: "k < NLEV"
  let ?j = "Suc k"
  have pj: "?j div VS < ?m" using k m by (simp add: div_le_mono less_Suc_eq_le)
  have dm: "(if ?j mod VS = 0 then k div VS = ?j div VS - 1 \<and> k mod VS = VS - 1
             else k div VS = ?j div VS \<and> k mod VS = ?j mod VS - 1)"
    by (rule div_mod_Suc[OF vs])
  have "?S (?j div VS) (?j mod VS) = ?S (k div VS) (k mod VS) + inp (k div VS) (k mod VS)"
  proof (cases "?j mod VS = 0")
    case True
    have pos: "?j div VS \<noteq> 0" using True vs
      by (metis div_mult_mod_eq add.right_neutral mult_zero_left nat.distinct(1))
    have "?j div VS - 1 < NLEV div VS" using pos pj m by simp
    then have ve: "?ve (?j div VS - 1) = VS - 1" using vs by (simp add: vec_end_of_interface)
    show ?thesis using a[OF pj] pos True dm ve by simp
  next
    case False
    have "?j mod VS \<le> ?ve (?j div VS)"
    proof (cases "?j div VS = NLEV div VS")
      case True
      then show ?thesis using vs k mod_le_same_div[OF vs, of ?j NLEV]
        by (simp add: vec_end_of_interface)
    next
      case False
      have "?j mod VS < VS" using vs by simp
      then have "?j mod VS \<le> VS - 1" by linarith
      then show ?thesis using vs False by (simp add: vec_end_of_interface)
    qed
    then show ?thesis using b[OF pj, of "?j mod VS"] False dm by simp
  qed
  then show "flat VS (column_scan_impl_simd VS True False (Suc NLEV) inp sumI sI) (k + 1)
           = flat VS (column_scan_impl_simd VS True False (Suc NLEV) inp sumI sI) k + flat VS inp k"
    unfolding r flat_def by simp
qed

lemma scan_gpu_fwd_excl_fold:
  "fold (\<lambda>k st.
                   let sum_v = fst st;
                       accumulator = snd st;
                       accumulator = accumulator + inp k 0;
                       accumulator = (if k = 0 then accumulator + sI else accumulator);
                       last_idx = (if False then int (Suc NLEV) - 1 else int (Suc NLEV) - 2);
                       offset = (if False then 0 else 1)
                   in (if int k \<le> last_idx
                       then sum_v(k + offset := (\<lambda>iv. accumulator)) else sum_v, accumulator))
                 [0..<m] (sumI, 0)
   = ((\<lambda>p. if 1 \<le> p \<and> p \<le> m \<and> p \<le> NLEV then (\<lambda>iv. gpu_acc inp sI p) else sumI p),
      (if m = 0 then 0 else gpu_acc inp sI m))"
proof (induction m)
  case 0
  show ?case by (simp add: fun_eq_iff)
next
  case (Suc m)
  show ?case
    unfolding upt_Suc_append[OF le0] fold_append comp_def Suc
    by (auto simp: Let_def fun_eq_iff gpu_acc_def)
qed

lemma scan_gpu_fwd_excl:
  "column_scan_impl_gpu True False (Suc NLEV) inp sumI sI
     = (\<lambda>p. if 1 \<le> p \<and> p \<le> NLEV then (\<lambda>iv. gpu_acc inp sI p) else sumI p)"
  unfolding column_scan_impl_gpu_def
  by (simp only: if_True scan_gpu_fwd_excl_fold fst_conv) (auto simp: fun_eq_iff)

lemma scan_gpu_fwd_excl_rec:
  assumes "sumI 0 0 = sI"
  shows "column_scan_impl_gpu True False (Suc NLEV) inp sumI sI 0 0 = sI"
    and "k < NLEV \<Longrightarrow>
         column_scan_impl_gpu True False (Suc NLEV) inp sumI sI (k + 1) 0
           = column_scan_impl_gpu True False (Suc NLEV) inp sumI sI k 0 + inp k 0"
proof -
  show "column_scan_impl_gpu True False (Suc NLEV) inp sumI sI 0 0 = sI"
    using assms by (simp add: scan_gpu_fwd_excl)
  assume "k < NLEV"
  then show "column_scan_impl_gpu True False (Suc NLEV) inp sumI sI (k + 1) 0
           = column_scan_impl_gpu True False (Suc NLEV) inp sumI sI k 0 + inp k 0"
    using assms by (cases k) (simp_all add: scan_gpu_fwd_excl gpu_acc_def)
qed

lemma column_scan_mid_to_int_forward:
  assumes "wf_build b"
  shows "flat (VECTOR_SIZE b) (column_scan_mid_to_int b True inp sumI) 0 = sumI 0 0
         \<and> (\<forall>k<NUM_PHYSICAL_LEV b.
               flat (VECTOR_SIZE b) (column_scan_mid_to_int b True inp sumI) (k + 1)
                 = flat (VECTOR_SIZE b) (column_scan_mid_to_int b True inp sumI) k
                   + flat (VECTOR_SIZE b) inp k)"
proof (cases "OnGpu b")
  case True
  then have vs: "VECTOR_SIZE b = 1" using assms by (simp add: wf_build_def)
  have r: "column_scan_mid_to_int b True inp sumI
             = column_scan_impl_gpu True False (Suc (NUM_PHYSICAL_LEV b)) inp sumI (sumI 0 0)"
    using True by (simp add: column_scan_mid_to_int_def NUM_INTERFACE_LEV_def)
  show ?thesis unfolding r vs flat_def
    using scan_gpu_fwd_excl_rec[where sumI=sumI and sI="sumI 0 0" and NLEV="NUM_PHYSICAL_LEV b" and inp=inp] by simp
next
  case False
  have vs: "1 \<le> VECTOR_SIZE b" using assms by (simp add: wf_build_def)
  have r: "column_scan_mid_to_int b True inp sumI
             = column_scan_impl_simd (VECTOR_SIZE b) True False (Suc (NUM_PHYSICAL_LEV b)) inp sumI (sumI 0 0)"
    using False by (simp add: column_scan_mid_to_int_def NUM_INTERFACE_LEV_def)
  show ?thesis unfolding r
    using scan_simd_fwd_excl[OF vs, where NLEV="NUM_PHYSICAL_LEV b" and inp=inp and sumI=sumI and sI="sumI 0 0"] by simp
qed

text \<open>
  C3. In every well-formed build, on either code path, for every layer-thickness column
  \<open>dp\<close> (whatever was in the output views before), \<^verbatim>\<open>compute_hydrostatic_p\<close> of
  \<^verbatim>\<open>ElementOps\<close>, and that of \<^verbatim>\<open>EquationOfState\<close> in hydrostatic mode,
  return an interface-pressure column whose top entry is \<open>hybrid_ai0 * ps0\<close> and in
  which \<open>p_i (k + 1) = p_i k + dp k\<close> for every level \<open>k < NUM_PHYSICAL_LEV\<close>. The
  thicknesses need not be positive for this.
\<close>

theorem C3_hydrostatic_pressure:
  assumes "wf_build b"
  shows "(\<exists>p_i' pi''. ElementOps_compute_hydrostatic_p b hv dp p_i pi' = Inr (p_i', pi'')
            \<and> flat (VECTOR_SIZE b) p_i' 0 = hybrid_ai0 hv * ps0 hv
            \<and> (\<forall>k<NUM_PHYSICAL_LEV b.
                  flat (VECTOR_SIZE b) p_i' (k + 1)
                    = flat (VECTOR_SIZE b) p_i' k + flat (VECTOR_SIZE b) dp k))
       \<and> (m_theta_hydrostatic_mode eos \<longrightarrow>
           (\<exists>p_i' pi''. compute_hydrostatic_p b eos dp p_i pi' = Inr (p_i', pi'')
              \<and> flat (VECTOR_SIZE b) p_i' 0 = hybrid_ai0 (m_hvcoord eos) * ps0 (m_hvcoord eos)
              \<and> (\<forall>k<NUM_PHYSICAL_LEV b.
                    flat (VECTOR_SIZE b) p_i' (k + 1)
                      = flat (VECTOR_SIZE b) p_i' k + flat (VECTOR_SIZE b) dp k)))"
proof -
  have scan: "\<And>top. flat (VECTOR_SIZE b) (column_scan_mid_to_int b True dp (set_lane p_i 0 0 top)) 0 = top
         \<and> (\<forall>k<NUM_PHYSICAL_LEV b.
               flat (VECTOR_SIZE b) (column_scan_mid_to_int b True dp (set_lane p_i 0 0 top)) (k + 1)
                 = flat (VECTOR_SIZE b) (column_scan_mid_to_int b True dp (set_lane p_i 0 0 top)) k
                   + flat (VECTOR_SIZE b) dp k)"
    using column_scan_mid_to_int_forward[OF assms, of dp "set_lane p_i 0 0 _"]
    by (simp add: set_lane_def)
  have mv: "\<And>x_i x_m. \<exists>r. compute_midpoint_values b Replace x_i x_m 1 0 = Inr r"
    by (simp add: compute_midpoint_values_def)
  show ?thesis
  proof (intro conjI impI)
    show "\<exists>p_i' pi''. ElementOps_compute_hydrostatic_p b hv dp p_i pi' = Inr (p_i', pi'')
            \<and> flat (VECTOR_SIZE b) p_i' 0 = hybrid_ai0 hv * ps0 hv
            \<and> (\<forall>k<NUM_PHYSICAL_LEV b.
                  flat (VECTOR_SIZE b) p_i' (k + 1)
                    = flat (VECTOR_SIZE b) p_i' k + flat (VECTOR_SIZE b) dp k)"
      using scan[of "hybrid_ai0 hv * ps0 hv"]
      by (auto simp: ElementOps_compute_hydrostatic_p_def Let_def compute_midpoint_values_def)
  next
    assume "m_theta_hydrostatic_mode eos"
    then show "\<exists>p_i' pi''. compute_hydrostatic_p b eos dp p_i pi' = Inr (p_i', pi'')
              \<and> flat (VECTOR_SIZE b) p_i' 0 = hybrid_ai0 (m_hvcoord eos) * ps0 (m_hvcoord eos)
              \<and> (\<forall>k<NUM_PHYSICAL_LEV b.
                    flat (VECTOR_SIZE b) p_i' (k + 1)
                      = flat (VECTOR_SIZE b) p_i' k + flat (VECTOR_SIZE b) dp k)"
      using scan[of "hybrid_ai0 (m_hvcoord eos) * ps0 (m_hvcoord eos)"]
      by (auto simp: compute_hydrostatic_p_def Let_def compute_midpoint_values_def)
  qed
qed

lemma cid_simd_Replace_DoNothing_lane:
  "compute_interface_delta_simd VS NLEV Replace DoNothing x_m dx_i bcVal alpha beta p l =
     (if p = 0 then x_m 0 l - (if l = 0 then 0 else x_m 0 (l - 1))
      else if p < NUM_LEV VS NLEV
           then x_m p l - (if l = 0 then x_m (p - 1) (VECTOR_END VS) else x_m p (l - 1))
      else dx_i p l)"
proof -
  have loop: "fold (\<lambda>ilev dx_i.
                    let tmp = x_m ilev;
                        tmp = shift_right 1 tmp;
                        tmp = tmp(0 := x_m (ilev - 1) (VECTOR_END VS))
                    in dx_i(ilev := combine_pack Replace (\<lambda>iv. x_m ilev iv - tmp iv)
                                      (dx_i ilev) alpha beta))
                 [1..<NUM_LEV VS NLEV] dx_i
     = (\<lambda>p. if 1 \<le> p \<and> p < NUM_LEV VS NLEV
             then (\<lambda>iv. x_m p iv - (if iv = 0 then x_m (p - 1) (VECTOR_END VS) else x_m p (iv - 1)))
             else dx_i p)"
    by (rule fold_upd_range) (simp add: Let_def fun_eq_iff combine_pack_def shift_right_def)
  show ?thesis
    apply (simp only: compute_interface_delta_simd_def loop)
    apply (simp add: Let_def combine_pack_def shift_right_def)
    done
qed

lemma cid_gpu_Replace_DoNothing_lane:
  "compute_interface_delta_gpu NLEV Replace DoNothing x_m dx_i bcVal alpha beta p l =
     (if 1 \<le> p \<and> p < NLEV then x_m p l - x_m (p - 1) l else dx_i p l)"
proof -
  have loop: "fold (\<lambda>ilev dx_i.
                    dx_i(ilev := combine_pack Replace (\<lambda>iv. x_m ilev iv - x_m (ilev - 1) iv)
                                   (dx_i ilev) alpha beta))
                 [1..<NLEV] dx_i
     = (\<lambda>p. if 1 \<le> p \<and> p < NLEV then (\<lambda>iv. x_m p iv - x_m (p - 1) iv) else dx_i p)"
    by (rule fold_upd_range) (simp add: Let_def fun_eq_iff combine_pack_def)
  show ?thesis
    apply (simp only: compute_interface_delta_gpu_def loop)
    apply (simp add: Let_def)
    done
qed

lemma divide_loop:
  "fold (\<lambda>ilev (r::fview). r(ilev := (\<lambda>iv. fdiv fl (fl (d ilev iv)) (dp_i ilev iv)))) [0..<n] r0
     = (\<lambda>p. if p < n then (\<lambda>iv. fdiv fl (fl (d p iv)) (dp_i p iv)) else r0 p)"
  using fold_upd_range[of "\<lambda>ilev (r::fview). r(ilev := (\<lambda>iv. fdiv fl (fl (d ilev iv)) (dp_i ilev iv)))"
                           "\<lambda>p rp iv. fdiv fl (fl (d p iv)) (dp_i p iv)" 0 n r0]
  by simp

lemma one_loop:
  "fold (\<lambda>ilev (r::fview). r(ilev := (\<lambda>iv. Num 1))) [0..<n] r0
     = (\<lambda>p. if p < n then (\<lambda>iv. Num 1) else r0 p)"
  using fold_upd_range[of "\<lambda>ilev (r::fview). r(ilev := (\<lambda>iv. Num 1))"
                           "\<lambda>p rp iv. Num 1" 0 n r0]
  by simp

lemma dpnh_simd_lane:
  assumes "\<not> OnGpu b" "\<not> m_theta_hydrostatic_mode eos" "1 \<le> VECTOR_SIZE b"
  shows "\<exists>r. compute_dpnh_dp_i fl b eos pnh dp_i d = Inr r \<and>
     (\<forall>p l. r p l =
       (if p = NUM_PHYSICAL_LEV b div VECTOR_SIZE b \<and> l = NUM_PHYSICAL_LEV b mod VECTOR_SIZE b
        then fdiv fl (fl (2 * fl (fl (pnh (LastPack (VECTOR_SIZE b) (NUM_PHYSICAL_LEV b))
                                        (LastPackEnd (VECTOR_SIZE b) (NUM_PHYSICAL_LEV b))
                   + fl (dp_i (NUM_PHYSICAL_LEV b div VECTOR_SIZE b) (NUM_PHYSICAL_LEV b mod VECTOR_SIZE b) / 2))
                  - pnh (LastPack (VECTOR_SIZE b) (NUM_PHYSICAL_LEV b))
                        (LastPackEnd (VECTOR_SIZE b) (NUM_PHYSICAL_LEV b)))))
             (dp_i (NUM_PHYSICAL_LEV b div VECTOR_SIZE b) (NUM_PHYSICAL_LEV b mod VECTOR_SIZE b))
        else if p = 0 \<and> l = 0
        then fdiv fl (fl (2 * fl (pnh 0 0 - fl (hybrid_ai (m_hvcoord eos) 0 * ps0 (m_hvcoord eos)))))
               (dp_i 0 0)
        else if p < NUM_LEV (VECTOR_SIZE b) (NUM_PHYSICAL_LEV b)
        then fdiv fl (fl (compute_interface_delta_simd (VECTOR_SIZE b) (NUM_PHYSICAL_LEV b) Replace DoNothing
               pnh d 0 1 0 p l)) (dp_i p l)
        else Num (fl (compute_interface_delta_simd (VECTOR_SIZE b) (NUM_PHYSICAL_LEV b) Replace DoNothing
               pnh d 0 1 0 p l))))"
  using assms
  apply (simp only: compute_dpnh_dp_i_def compute_interface_delta_def divide_loop Let_def
                    debug_sanity_check_defaults sum.case if_False LastVecEnd_def)
  apply (simp add: interface_last)
  done

lemma dpnh_gpu_lane:
  assumes "OnGpu b" "\<not> m_theta_hydrostatic_mode eos" "VECTOR_SIZE b = 1" "1 \<le> NUM_PHYSICAL_LEV b"
  shows "\<exists>r. compute_dpnh_dp_i fl b eos pnh dp_i d = Inr r \<and>
     (\<forall>p l. r p l =
       (if p = NUM_PHYSICAL_LEV b \<and> l = 0
        then fdiv fl (fl (2 * fl (fl (pnh (LastPack 1 (NUM_PHYSICAL_LEV b)) (LastPackEnd 1 (NUM_PHYSICAL_LEV b))
                   + fl (dp_i (NUM_PHYSICAL_LEV b) 0 / 2))
                  - pnh (LastPack 1 (NUM_PHYSICAL_LEV b)) (LastPackEnd 1 (NUM_PHYSICAL_LEV b)))))
             (dp_i (NUM_PHYSICAL_LEV b) 0)
        else if p = 0 \<and> l = 0
        then fdiv fl (fl (2 * fl (pnh 0 0 - fl (hybrid_ai (m_hvcoord eos) 0 * ps0 (m_hvcoord eos)))))
               (dp_i 0 0)
        else if p < NUM_LEV 1 (NUM_PHYSICAL_LEV b)
        then fdiv fl (fl (compute_interface_delta_gpu (NUM_PHYSICAL_LEV b) Replace DoNothing
               pnh d 0 1 0 p l)) (dp_i p l)
        else Num (fl (compute_interface_delta_gpu (NUM_PHYSICAL_LEV b) Replace DoNothing
               pnh d 0 1 0 p l))))"
  using assms
  apply (simp only: compute_dpnh_dp_i_def compute_interface_delta_def divide_loop Let_def
                    debug_sanity_check_defaults sum.case if_True if_False LastVecEnd_def)
  apply (simp add: interface_last NUM_LEV_def NumPacks_eq)
  done

lemma not_zero_div_mod: "0 < k \<Longrightarrow> \<not> (k div VS = 0 \<and> k mod VS = (0::nat))"
  by (metis div_mult_mod_eq add.right_neutral mult_zero_left less_irrefl)

text \<open>
  The entries of the result in non-hydrostatic mode, on either code path.
\<close>

lemma dpnh_entries:
  assumes wf: "wf_build b" and hyd: "\<not> m_theta_hydrostatic_mode eos"
  shows "\<exists>r. compute_dpnh_dp_i fl b eos pnh dp_i d = Inr r
     \<and> (\<forall>k. 0 < k \<and> k < NUM_PHYSICAL_LEV b \<longrightarrow>
              flat_f (VECTOR_SIZE b) r k
                = fdiv fl (fl (flat (VECTOR_SIZE b) pnh k - flat (VECTOR_SIZE b) pnh (k - 1)))
                       (flat (VECTOR_SIZE b) dp_i k))
     \<and> flat_f (VECTOR_SIZE b) r 0
         = fdiv fl (fl (2 * fl (flat (VECTOR_SIZE b) pnh 0
                                 - fl (hybrid_ai (m_hvcoord eos) 0 * ps0 (m_hvcoord eos)))))
                (flat (VECTOR_SIZE b) dp_i 0)
     \<and> flat_f (VECTOR_SIZE b) r (NUM_PHYSICAL_LEV b)
         = fdiv fl (fl (2 * fl (fl (flat (VECTOR_SIZE b) pnh (NUM_PHYSICAL_LEV b - 1)
                                     + fl (flat (VECTOR_SIZE b) dp_i (NUM_PHYSICAL_LEV b) / 2))
                                 - flat (VECTOR_SIZE b) pnh (NUM_PHYSICAL_LEV b - 1))))
                (flat (VECTOR_SIZE b) dp_i (NUM_PHYSICAL_LEV b))"
proof -
  let ?VS = "VECTOR_SIZE b" and ?N = "NUM_PHYSICAL_LEV b"
  have vs: "1 \<le> ?VS" and nl: "1 \<le> ?N" using wf by (simp_all add: wf_build_def)
  show ?thesis
  proof (cases "OnGpu b")
    case True
    then have one: "?VS = 1" using wf by (simp add: wf_build_def)
    obtain r where r: "compute_dpnh_dp_i fl b eos pnh dp_i d = Inr r"
      and lane: "\<And>p l. r p l =
       (if p = ?N \<and> l = 0
        then fdiv fl (fl (2 * fl (fl (pnh (LastPack 1 ?N) (LastPackEnd 1 ?N) + fl (dp_i ?N 0 / 2))
                  - pnh (LastPack 1 ?N) (LastPackEnd 1 ?N)))) (dp_i ?N 0)
        else if p = 0 \<and> l = 0
        then fdiv fl (fl (2 * fl (pnh 0 0 - fl (hybrid_ai (m_hvcoord eos) 0 * ps0 (m_hvcoord eos)))))
               (dp_i 0 0)
        else if p < NUM_LEV 1 ?N
        then fdiv fl (fl (compute_interface_delta_gpu ?N Replace DoNothing pnh d 0 1 0 p l)) (dp_i p l)
        else Num (fl (compute_interface_delta_gpu ?N Replace DoNothing pnh d 0 1 0 p l)))"
      using dpnh_gpu_lane[OF True hyd one nl, of fl pnh dp_i d] by blast
    have nlev: "NUM_LEV (Suc 0) ?N = ?N" using nl by (simp add: NUM_LEV_def NumPacks_eq)
    have last: "LastPack (Suc 0) ?N = ?N - 1" "LastPackEnd (Suc 0) ?N = 0"
      using nl by (simp_all add: LastPack_eq LastPackEnd_eq)
    show ?thesis using r nl
      by (simp add: one flat_def flat_f_def lane nlev last cid_gpu_Replace_DoNothing_lane)
  next
    case False
    obtain r where r: "compute_dpnh_dp_i fl b eos pnh dp_i d = Inr r"
      and lane: "\<And>p l. r p l =
       (if p = ?N div ?VS \<and> l = ?N mod ?VS
        then fdiv fl (fl (2 * fl (fl (pnh (LastPack ?VS ?N) (LastPackEnd ?VS ?N)
                                     + fl (dp_i (?N div ?VS) (?N mod ?VS) / 2))
                  - pnh (LastPack ?VS ?N) (LastPackEnd ?VS ?N))))
             (dp_i (?N div ?VS) (?N mod ?VS))
        else if p = 0 \<and> l = 0
        then fdiv fl (fl (2 * fl (pnh 0 0 - fl (hybrid_ai (m_hvcoord eos) 0 * ps0 (m_hvcoord eos)))))
               (dp_i 0 0)
        else if p < NUM_LEV ?VS ?N
        then fdiv fl (fl (compute_interface_delta_simd ?VS ?N Replace DoNothing pnh d 0 1 0 p l)) (dp_i p l)
        else Num (fl (compute_interface_delta_simd ?VS ?N Replace DoNothing pnh d 0 1 0 p l)))"
      using dpnh_simd_lane[OF False hyd vs, of fl pnh dp_i d] by blast
    have top: "\<not> (0 = ?N div ?VS \<and> 0 = ?N mod ?VS)"
      using not_zero_div_mod[of ?N ?VS] nl by auto
    have c_top: "flat_f ?VS r 0
             = fdiv fl (fl (2 * fl (flat ?VS pnh 0 - fl (hybrid_ai (m_hvcoord eos) 0 * ps0 (m_hvcoord eos)))))
                 (flat ?VS dp_i 0)"
      using top by (auto simp: flat_def flat_f_def lane)
    have c_bot: "flat_f ?VS r ?N
             = fdiv fl (fl (2 * fl (fl (flat ?VS pnh (?N - 1) + fl (flat ?VS dp_i ?N / 2))
                                     - flat ?VS pnh (?N - 1))))
                 (flat ?VS dp_i ?N)"
      using vs nl by (simp add: flat_def flat_f_def lane LastPack_eq LastPackEnd_eq)
    have c_int: "\<forall>k. 0 < k \<and> k < ?N \<longrightarrow>
              flat_f ?VS r k = fdiv fl (fl (flat ?VS pnh k - flat ?VS pnh (k - 1))) (flat ?VS dp_i k)"
    proof (intro allI impI)
      fix k assume k: "0 < k \<and> k < ?N"
      have neq: "\<not> (k div ?VS = ?N div ?VS \<and> k mod ?VS = ?N mod ?VS)"
        using k div_mod_inj[OF vs, of k ?N] by auto
      have nz: "\<not> (k div ?VS = 0 \<and> k mod ?VS = 0)"
        using k not_zero_div_mod[of k ?VS] by simp
      have "k \<le> ?N - 1" using k by linarith
      then have "k div ?VS \<le> (?N - 1) div ?VS" by (rule div_le_mono)
      then have lt: "k div ?VS < NUM_LEV ?VS ?N" using vs nl by (simp add: NUM_LEV_def NumPacks_eq)
      have k0: "0 < k" using k by simp
      show "flat_f ?VS r k = fdiv fl (fl (flat ?VS pnh k - flat ?VS pnh (k - 1))) (flat ?VS dp_i k)"
        using neq nz lt flat_pred[OF vs k0, of pnh]
        by (auto simp: flat_def flat_f_def lane cid_simd_Replace_DoNothing_lane VECTOR_END_def)
    qed
    show ?thesis using r c_top c_bot c_int by simp
  qed
qed

lemma dpnh_hydrostatic:
  assumes wf: "wf_build b" and hyd: "m_theta_hydrostatic_mode eos"
  shows "\<exists>r. compute_dpnh_dp_i fl b eos pnh dp_i d = Inr r
     \<and> (\<forall>k\<le>NUM_PHYSICAL_LEV b. flat_f (VECTOR_SIZE b) r k = Num 1)"
proof -
  have vs: "1 \<le> VECTOR_SIZE b" using wf by (simp add: wf_build_def)
  have "\<And>k. k \<le> NUM_PHYSICAL_LEV b \<Longrightarrow>
          k div VECTOR_SIZE b < NUM_LEV_P (VECTOR_SIZE b) (NUM_PHYSICAL_LEV b)"
    using vs by (simp add: NUM_LEV_P_def NUM_INTERFACE_LEV_def NumPacks_eq div_le_mono less_Suc_eq_le)
  then show ?thesis using hyd
    by (simp add: compute_dpnh_dp_i_def Let_def one_loop flat_f_def)
qed

text \<open>
  The rounding of \<^verbatim>\<open>double\<close> at a number whose exponent is known, and at the numbers of
  the sample columns.
\<close>

lemma binary64_exponent:
  assumes "x \<noteq> 0" "2 powr of_int e \<le> \<bar>x\<bar>" "\<bar>x\<bar> < 2 powr (of_int e + 1)" "- 1022 \<le> e"
  shows "binary64 x = of_int (round_ties_even (x / 2 powr (of_int e - 52))) * 2 powr (of_int e - 52)"
proof -
  have "\<lfloor>log 2 \<bar>x\<bar>\<rfloor> = e"
    using assms floor_log_eq_powr_iff[of "\<bar>x\<bar>" 2 e] by simp
  then show ?thesis using assms by (simp add: binary64_def Let_def max_def)
qed

lemma binary64_0: "binary64 0 = 0"
  by (simp add: binary64_def)

lemma binary64_1: "binary64 1 = 1"
  using binary64_exponent[of 1 0] by (simp add: round_ties_even_def Let_def powr_neg_numeral)

lemma binary64_heavy: "binary64 100000000000000001 = 100000000000000000"
  using binary64_exponent[of 100000000000000001 56] by (simp add: round_ties_even_def Let_def)

lemma binary64_surface:
  "binary64 (8796972631510221 / 8796093022208 / 2) = 8796972631510221 / 17592186044416"
  "binary64 (99000 + 8796972631510221 / 17592186044416) = 6837591371205837 / 68719476736"
  "binary64 (6837591371205837 / 68719476736 - 99000) = 34363174341837 / 68719476736"
  "binary64 (2 * (34363174341837 / 68719476736)) = 34363174341837 / 34359738368"
  "binary64 (34363174341837 / 34359738368 / (8796972631510221 / 8796093022208))
     = 2251799813685261 / 2251799813685248"
  using binary64_exponent[of "8796972631510221 / 8796093022208 / 2" 8]
        binary64_exponent[of "99000 + 8796972631510221 / 17592186044416" 16]
        binary64_exponent[of "6837591371205837 / 68719476736 - 99000" 8]
        binary64_exponent[of "2 * (34363174341837 / 68719476736)" 9]
        binary64_exponent[of "34363174341837 / 34359738368 / (8796972631510221 / 8796093022208)" 0]
  by (simp_all add: round_ties_even_def Let_def powr_neg_numeral)

text \<open>
  The claim C4 as stated fails at the bottom interface: the code does not set the value to
  1, it evaluates the extrapolation. With a bottom thickness of zero the quotient is zero
  divided by zero, a NaN. In double precision, with the bottom pressure \<open>99000\<close> over
  the thickness nearest to \<open>1000.1\<close>, the sum \<open>pnh_last + dp_last / 2\<close> is
  rounded and the quotient is \<open>1 + 13 / 2^51 = 1.0000000000000058\<close>; with the
  pressure \<open>10^17\<close> over the thickness 2 the sum is rounded back to the pressure and
  the quotient is 0.
\<close>

theorem C4_dpnh_dp_i_counterexample:
  "(\<exists>r. compute_dpnh_dp_i (\<lambda>x. x) sample_simd_build sample_eos_nonhydrostatic
           sample_column zero_view zero_view = Inr r
        \<and> flat_f 2 r 3 = NaN \<and> flat_f 2 r 3 \<noteq> Num 1)
   \<and> (\<exists>r. compute_dpnh_dp_i binary64 sample_simd_build sample_eos_nonhydrostatic
           surface_view thickness_view zero_view = Inr r
        \<and> flat_f 2 r 3 = Num (2251799813685261 / 2 ^ 51) \<and> flat_f 2 r 3 \<noteq> Num 1)
   \<and> (\<exists>r. compute_dpnh_dp_i binary64 sample_simd_build sample_eos_nonhydrostatic
           heavy_view two_view zero_view = Inr r
        \<and> flat_f 2 r 3 = Num 0 \<and> flat_f 2 r 3 \<noteq> Num 1)"
proof -
  have nh: "\<not> m_theta_hydrostatic_mode sample_eos_nonhydrostatic"
    by (simp add: sample_eos_nonhydrostatic_def)
  have b: "VECTOR_SIZE sample_simd_build = 2" "NUM_PHYSICAL_LEV sample_simd_build = 3"
    by (simp_all add: sample_simd_build_def)
  obtain r where r: "compute_dpnh_dp_i (\<lambda>x. x) sample_simd_build sample_eos_nonhydrostatic
           sample_column zero_view zero_view = Inr r"
     "flat_f 2 r 3 = fdiv (\<lambda>x. x) (2 * ((flat 2 sample_column (3 - 1) + flat 2 zero_view 3 / 2)
                                       - flat 2 sample_column (3 - 1))) (flat 2 zero_view 3)"
    using dpnh_entries[OF wf_sample_simd_build nh, of "\<lambda>x. x" sample_column zero_view zero_view]
    unfolding b by blast
  have r3: "flat_f 2 r 3 = NaN"
    unfolding r(2) by (simp add: fdiv_def flat_def zero_view_def)
  obtain s where s: "compute_dpnh_dp_i binary64 sample_simd_build sample_eos_nonhydrostatic
           heavy_view two_view zero_view = Inr s"
     "flat_f 2 s 3 = fdiv binary64 (binary64 (2 * binary64 (binary64 (flat 2 heavy_view (3 - 1)
                                         + binary64 (flat 2 two_view 3 / 2))
                                     - flat 2 heavy_view (3 - 1)))) (flat 2 two_view 3)"
    using dpnh_entries[OF wf_sample_simd_build nh, of binary64 heavy_view two_view zero_view]
    unfolding b by blast
  have s3: "flat_f 2 s 3 = Num 0"
    unfolding s(2)
    by (simp add: fdiv_def flat_def two_view_def heavy_view_def binary64_0 binary64_1 binary64_heavy)
  obtain t where t: "compute_dpnh_dp_i binary64 sample_simd_build sample_eos_nonhydrostatic
           surface_view thickness_view zero_view = Inr t"
     "flat_f 2 t 3 = fdiv binary64 (binary64 (2 * binary64 (binary64 (flat 2 surface_view (3 - 1)
                                         + binary64 (flat 2 thickness_view 3 / 2))
                                     - flat 2 surface_view (3 - 1)))) (flat 2 thickness_view 3)"
    using dpnh_entries[OF wf_sample_simd_build nh, of binary64 surface_view thickness_view zero_view]
    unfolding b by blast
  have v: "flat 2 surface_view (3 - 1) = 99000"
          "flat 2 thickness_view 3 = 8796972631510221 / 8796093022208"
    by (simp_all add: flat_def surface_view_def thickness_view_def)
  have t3: "flat_f 2 t 3 = Num (2251799813685261 / 2251799813685248)"
    unfolding t(2) v fdiv_def binary64_surface by simp
  show ?thesis using r(1) r3 s(1) s3 t(1) t3 by simp
qed

text \<open>
  C4 (amended). \<^verbatim>\<open>compute_dpnh_dp_i\<close> returns without error in every well-formed
  build. In hydrostatic mode every interface entry is 1. Otherwise, every operation being
  rounded by \<open>fl\<close> and a quotient by zero being no number, every interior interface
  \<open>0 < k < NUM_PHYSICAL_LEV\<close> holds \<open>(pnh k - pnh (k - 1)) / dp_i k\<close>, the top
  interface holds \<open>2 * (pnh 0 - hybrid_ai 0 * ps0) / dp_i 0\<close>, the one-sided difference
  against the boundary value \<open>hybrid_ai 0 * ps0\<close>, and the bottom interface holds the
  one-sided extrapolation \<open>2 * (pnh_i_last - pnh_last) / dp_last\<close> with
  \<open>pnh_i_last = pnh_last + dp_last / 2\<close>, evaluated as written. The bottom value is
  1 when the arithmetic is exact and the bottom thickness \<open>dp_last\<close> is not zero; it
  is not 1 when the thickness is zero.
\<close>

theorem C4_dpnh_dp_i:
  assumes wf: "wf_build b"
  shows "\<exists>r. compute_dpnh_dp_i fl b eos pnh dp_i d = Inr r \<and>
     (if m_theta_hydrostatic_mode eos
      then (\<forall>k\<le>NUM_PHYSICAL_LEV b. flat_f (VECTOR_SIZE b) r k = Num 1)
      else (\<forall>k. 0 < k \<and> k < NUM_PHYSICAL_LEV b \<longrightarrow>
              flat_f (VECTOR_SIZE b) r k
                = fdiv fl (fl (flat (VECTOR_SIZE b) pnh k - flat (VECTOR_SIZE b) pnh (k - 1)))
                       (flat (VECTOR_SIZE b) dp_i k))
         \<and> flat_f (VECTOR_SIZE b) r 0
             = fdiv fl (fl (2 * fl (flat (VECTOR_SIZE b) pnh 0
                                     - fl (hybrid_ai (m_hvcoord eos) 0 * ps0 (m_hvcoord eos)))))
                    (flat (VECTOR_SIZE b) dp_i 0)
         \<and> flat_f (VECTOR_SIZE b) r (NUM_PHYSICAL_LEV b)
             = fdiv fl (fl (2 * fl (fl (flat (VECTOR_SIZE b) pnh (NUM_PHYSICAL_LEV b - 1)
                                         + fl (flat (VECTOR_SIZE b) dp_i (NUM_PHYSICAL_LEV b) / 2))
                                     - flat (VECTOR_SIZE b) pnh (NUM_PHYSICAL_LEV b - 1))))
                    (flat (VECTOR_SIZE b) dp_i (NUM_PHYSICAL_LEV b))
         \<and> ((\<forall>x. fl x = x) \<and> flat (VECTOR_SIZE b) dp_i (NUM_PHYSICAL_LEV b) \<noteq> 0 \<longrightarrow>
              flat_f (VECTOR_SIZE b) r (NUM_PHYSICAL_LEV b) = Num 1)
         \<and> (flat (VECTOR_SIZE b) dp_i (NUM_PHYSICAL_LEV b) = 0 \<longrightarrow>
              flat_f (VECTOR_SIZE b) r (NUM_PHYSICAL_LEV b) \<noteq> Num 1))"
proof (cases "m_theta_hydrostatic_mode eos")
  case True
  then show ?thesis using dpnh_hydrostatic[OF wf True, of fl pnh dp_i d] by simp
next
  case False
  obtain r where r: "compute_dpnh_dp_i fl b eos pnh dp_i d = Inr r"
    and int: "\<forall>k. 0 < k \<and> k < NUM_PHYSICAL_LEV b \<longrightarrow>
              flat_f (VECTOR_SIZE b) r k
                = fdiv fl (fl (flat (VECTOR_SIZE b) pnh k - flat (VECTOR_SIZE b) pnh (k - 1)))
                       (flat (VECTOR_SIZE b) dp_i k)"
    and top: "flat_f (VECTOR_SIZE b) r 0
         = fdiv fl (fl (2 * fl (flat (VECTOR_SIZE b) pnh 0
                                 - fl (hybrid_ai (m_hvcoord eos) 0 * ps0 (m_hvcoord eos)))))
                (flat (VECTOR_SIZE b) dp_i 0)"
    and bot: "flat_f (VECTOR_SIZE b) r (NUM_PHYSICAL_LEV b)
         = fdiv fl (fl (2 * fl (fl (flat (VECTOR_SIZE b) pnh (NUM_PHYSICAL_LEV b - 1)
                                     + fl (flat (VECTOR_SIZE b) dp_i (NUM_PHYSICAL_LEV b) / 2))
                                 - flat (VECTOR_SIZE b) pnh (NUM_PHYSICAL_LEV b - 1))))
                (flat (VECTOR_SIZE b) dp_i (NUM_PHYSICAL_LEV b))"
    using dpnh_entries[OF wf False, of fl pnh dp_i d] by blast
  have exact: "(\<forall>x. fl x = x) \<and> flat (VECTOR_SIZE b) dp_i (NUM_PHYSICAL_LEV b) \<noteq> 0 \<longrightarrow>
              flat_f (VECTOR_SIZE b) r (NUM_PHYSICAL_LEV b) = Num 1"
    using bot by (auto simp: fdiv_def)
  have zero: "flat (VECTOR_SIZE b) dp_i (NUM_PHYSICAL_LEV b) = 0 \<longrightarrow>
              flat_f (VECTOR_SIZE b) r (NUM_PHYSICAL_LEV b) \<noteq> Num 1"
    using bot by (auto simp: fdiv_def)
  show ?thesis using False r int top bot exact zero by simp
qed

subsection \<open>Witnesses of the column kernels\<close>

text \<open>
  The wide-vector sample build, the thickness column \<open>1, 2, 3\<close> and a top pressure
  of \<open>100\<close>: the interface pressures are \<open>100, 101, 103, 106\<close>.
\<close>

theorem C3_hydrostatic_pressure_witness:
  "(\<exists>p_i' pi''. ElementOps_compute_hydrostatic_p sample_simd_build sample_hvcoord
                    sample_column zero_view zero_view = Inr (p_i', pi'')
       \<and> flat 2 p_i' 0 = 100 \<and> flat 2 p_i' 1 = 101 \<and> flat 2 p_i' 2 = 103 \<and> flat 2 p_i' 3 = 106)
   \<and> (\<exists>p_i' pi''. compute_hydrostatic_p sample_simd_build sample_eos_hydrostatic
                    sample_column zero_view zero_view = Inr (p_i', pi'')
       \<and> flat 2 p_i' 0 = 100 \<and> flat 2 p_i' 1 = 101 \<and> flat 2 p_i' 2 = 103 \<and> flat 2 p_i' 3 = 106)"
proof -
  have hyd: "m_theta_hydrostatic_mode sample_eos_hydrostatic"
    by (simp add: sample_eos_hydrostatic_def)
  have col: "flat 2 sample_column 0 = 1" "flat 2 sample_column 1 = 2" "flat 2 sample_column 2 = 3"
    by (simp_all add: flat_def sample_column_def packed_def)
  have top: "hybrid_ai0 sample_hvcoord * ps0 sample_hvcoord = 100"
    "hybrid_ai0 (m_hvcoord sample_eos_hydrostatic) * ps0 (m_hvcoord sample_eos_hydrostatic) = 100"
    by (simp_all add: sample_hvcoord_def sample_eos_hydrostatic_def)
  note th = C3_hydrostatic_pressure[OF wf_sample_simd_build,
      where hv=sample_hvcoord and dp=sample_column and p_i=zero_view and pi'=zero_view
        and eos=sample_eos_hydrostatic]
  obtain a a' where a: "ElementOps_compute_hydrostatic_p sample_simd_build sample_hvcoord
                    sample_column zero_view zero_view = Inr (a, a')"
     "flat 2 a 0 = 100"
     "\<forall>k<3. flat 2 a (k + 1) = flat 2 a k + flat 2 sample_column k"
    using th top by (auto simp: sample_simd_build_def)
  obtain c c' where c: "compute_hydrostatic_p sample_simd_build sample_eos_hydrostatic
                    sample_column zero_view zero_view = Inr (c, c')"
     "flat 2 c 0 = 100"
     "\<forall>k<3. flat 2 c (k + 1) = flat 2 c k + flat 2 sample_column k"
    using th top hyd by (auto simp: sample_simd_build_def)
  have a1: "flat 2 a 1 = 101" using a(3)[rule_format, of 0] a(2) col by (simp add: eval_nat_numeral)
  have a2: "flat 2 a 2 = 103" using a(3)[rule_format, of 1] a1 col by (simp add: eval_nat_numeral)
  have a3: "flat 2 a 3 = 106" using a(3)[rule_format, of 2] a2 col by (simp add: eval_nat_numeral)
  have c1: "flat 2 c 1 = 101" using c(3)[rule_format, of 0] c(2) col by (simp add: eval_nat_numeral)
  have c2: "flat 2 c 2 = 103" using c(3)[rule_format, of 1] c1 col by (simp add: eval_nat_numeral)
  have c3: "flat 2 c 3 = 106" using c(3)[rule_format, of 2] c2 col by (simp add: eval_nat_numeral)
  show ?thesis using a(1,2) a1 a2 a3 c(1,2) c1 c2 c3 by simp
qed

text \<open>
  The same build with \<open>pnh = 1, 2, 3\<close> and interface thickness 2 everywhere, in
  exact arithmetic: in non-hydrostatic mode the derivative is \<open>-99, 1/2, 1/2, 1\<close>,
  in hydrostatic mode it is 1 at all four interfaces.
\<close>

theorem C4_dpnh_dp_i_witness:
  "(\<exists>r. compute_dpnh_dp_i (\<lambda>x. x) sample_simd_build sample_eos_nonhydrostatic
           sample_column two_view zero_view = Inr r
        \<and> flat_f 2 r 0 = Num (- 99) \<and> flat_f 2 r 1 = Num (1 / 2) \<and> flat_f 2 r 2 = Num (1 / 2)
        \<and> flat_f 2 r 3 = Num 1)
   \<and> (\<exists>r. compute_dpnh_dp_i (\<lambda>x. x) sample_simd_build sample_eos_hydrostatic
           sample_column two_view zero_view = Inr r
        \<and> flat_f 2 r 0 = Num 1 \<and> flat_f 2 r 1 = Num 1 \<and> flat_f 2 r 2 = Num 1 \<and> flat_f 2 r 3 = Num 1)"
proof -
  have col: "flat 2 sample_column 0 = 1" "flat 2 sample_column 1 = 2" "flat 2 sample_column 2 = 3"
    by (simp_all add: flat_def sample_column_def packed_def)
  have two: "\<And>k. flat 2 two_view k = 2" by (simp add: flat_def two_view_def)
  have top: "hybrid_ai (m_hvcoord sample_eos_nonhydrostatic) 0 * ps0 (m_hvcoord sample_eos_nonhydrostatic) = 100"
    by (simp add: sample_hvcoord_def sample_eos_nonhydrostatic_def)
  have nh: "\<not> m_theta_hydrostatic_mode sample_eos_nonhydrostatic"
    by (simp add: sample_eos_nonhydrostatic_def)
  have hy: "m_theta_hydrostatic_mode sample_eos_hydrostatic"
    by (simp add: sample_eos_hydrostatic_def)
  obtain r where r: "compute_dpnh_dp_i (\<lambda>x. x) sample_simd_build sample_eos_nonhydrostatic
           sample_column two_view zero_view = Inr r"
     "\<forall>k. 0 < k \<and> k < 3 \<longrightarrow> flat_f 2 r k
         = fdiv (\<lambda>x. x) (flat 2 sample_column k - flat 2 sample_column (k - 1)) (flat 2 two_view k)"
     "flat_f 2 r 0 = fdiv (\<lambda>x. x) (2 * (flat 2 sample_column 0 - 100)) (flat 2 two_view 0)"
     "flat 2 two_view 3 \<noteq> 0 \<longrightarrow> flat_f 2 r 3 = Num 1"
    using C4_dpnh_dp_i[OF wf_sample_simd_build, of "\<lambda>x. x" sample_eos_nonhydrostatic sample_column two_view zero_view]
      nh top
    by (auto simp: sample_simd_build_def)
  obtain h where h: "compute_dpnh_dp_i (\<lambda>x. x) sample_simd_build sample_eos_hydrostatic
           sample_column two_view zero_view = Inr h"
     "\<forall>k\<le>3. flat_f 2 h k = Num 1"
    using C4_dpnh_dp_i[OF wf_sample_simd_build, of "\<lambda>x. x" sample_eos_hydrostatic sample_column two_view zero_view]
      hy
    by (auto simp: sample_simd_build_def)
  have r1: "flat_f 2 r 1 = Num (1 / 2)" using r(2)[rule_format, of 1] col two by (simp add: eval_nat_numeral fdiv_def)
  have r2: "flat_f 2 r 2 = Num (1 / 2)" using r(2)[rule_format, of 2] col two by (simp add: eval_nat_numeral fdiv_def)
  have r0: "flat_f 2 r 0 = Num (- 99)" using r(3) col two by (simp add: eval_nat_numeral fdiv_def)
  have r3: "flat_f 2 r 3 = Num 1" using r(4) two by (simp add: eval_nat_numeral)
  show ?thesis using r(1) r0 r1 r2 r3 h by simp
qed

subsection \<open>Sanity checks of the combine mode\<close>

lemma isl_debug_sanity_check:
  "isl (debug_sanity_check b CM alpha beta)
     = (\<not> NDEBUG b \<and> ((\<not> needsAlpha CM \<and> alpha \<noteq> 1) \<or> (\<not> needsBeta CM \<and> beta \<noteq> 0)))"
  by (cases CM) (auto simp: debug_sanity_check_def sanity_check_def runtime_check_def)

lemma isl_case_sum: "isl (case c of Inl e \<Rightarrow> Inl e | Inr x \<Rightarrow> Inr (f x)) = isl c"
  by (cases c) simp_all

text \<open>
  The claim C8 as stated fails in a release build: with \<^verbatim>\<open>NDEBUG\<close> the sanity
  check is compiled out, and \<^verbatim>\<open>compute_midpoint_values\<close> in mode
  \<^verbatim>\<open>Replace\<close>, which discards \<open>alpha\<close>, returns normally for \<open>alpha = 2\<close>.
\<close>

theorem C8_sanity_check_counterexample:
  "\<not> needsAlpha Replace \<and> (2::real) \<noteq> 1
   \<and> (\<exists>r. compute_midpoint_values sample_release_build Replace zero_view zero_view 2 0 = Inr r)"
  by (simp add: compute_midpoint_values_def debug_sanity_check_def sample_release_build_def)

text \<open>
  C8 (amended). In a build without \<^verbatim>\<open>NDEBUG\<close>, each averaging and delta operator
  of \<^verbatim>\<open>ColumnOps\<close> (midpoint values, interface values, weighted interface values,
  midpoint delta, interface delta) ends in the fatal error exactly when \<open>alpha \<noteq> 1\<close>
  under a combine mode that discards \<open>alpha\<close> or \<open>beta \<noteq> 0\<close> under one that
  discards \<open>beta\<close>, and every other pairing returns normally; in a build with
  \<^verbatim>\<open>NDEBUG\<close> no pairing is an error. The scan operators take no combine mode,
  \<open>alpha\<close> or \<open>beta\<close> and have no such check.
\<close>

theorem C8_sanity_check:
  "isl (compute_midpoint_values b CM x_i x_m alpha beta)
     = (\<not> NDEBUG b \<and> ((\<not> needsAlpha CM \<and> alpha \<noteq> 1) \<or> (\<not> needsBeta CM \<and> beta \<noteq> 0)))
   \<and> isl (compute_interface_values b CM x_m x_i alpha beta)
     = (\<not> NDEBUG b \<and> ((\<not> needsAlpha CM \<and> alpha \<noteq> 1) \<or> (\<not> needsBeta CM \<and> beta \<noteq> 0)))
   \<and> isl (compute_interface_values_weighted b CM weights_m weights_i x_m x_i alpha beta)
     = (\<not> NDEBUG b \<and> ((\<not> needsAlpha CM \<and> alpha \<noteq> 1) \<or> (\<not> needsBeta CM \<and> beta \<noteq> 0)))
   \<and> isl (compute_midpoint_delta b CM x_i x_m alpha beta)
     = (\<not> NDEBUG b \<and> ((\<not> needsAlpha CM \<and> alpha \<noteq> 1) \<or> (\<not> needsBeta CM \<and> beta \<noteq> 0)))
   \<and> isl (compute_interface_delta b CM bcType x_m x_i bcVal alpha beta)
     = (\<not> NDEBUG b \<and> ((\<not> needsAlpha CM \<and> alpha \<noteq> 1) \<or> (\<not> needsBeta CM \<and> beta \<noteq> 0)))"
  unfolding compute_midpoint_values_def compute_interface_values_def
    compute_interface_values_weighted_def compute_midpoint_delta_def compute_interface_delta_def
    isl_case_sum isl_debug_sanity_check
  by simp

text \<open>
  In the debug sample build, \<open>alpha = 2\<close> is an error under \<^verbatim>\<open>Replace\<close> and
  accepted under \<^verbatim>\<open>Scale\<close>; \<open>beta = 3\<close> under \<^verbatim>\<open>Add\<close> is an error there
  and accepted in the release build.
\<close>

theorem C8_sanity_check_witness:
  "isl (compute_midpoint_values sample_simd_build Replace zero_view zero_view 2 0)
   \<and> \<not> isl (compute_midpoint_values sample_simd_build Scale zero_view zero_view 2 0)
   \<and> isl (compute_interface_delta sample_simd_build Add Zero zero_view zero_view 0 1 3)
   \<and> \<not> isl (compute_interface_delta sample_release_build Add Zero zero_view zero_view 0 1 3)"
  using C8_sanity_check[where b=sample_simd_build and CM=Replace and alpha=2 and beta=0 and x_i=zero_view and x_m=zero_view and weights_m=zero_view and weights_i=zero_view and bcType=Zero and bcVal=0]
        C8_sanity_check[where b=sample_simd_build and CM=Scale and alpha=2 and beta=0 and x_i=zero_view and x_m=zero_view and weights_m=zero_view and weights_i=zero_view and bcType=Zero and bcVal=0]
        C8_sanity_check[where b=sample_simd_build and CM=Add and alpha=1 and beta=3 and x_i=zero_view and x_m=zero_view and weights_m=zero_view and weights_i=zero_view and bcType=Zero and bcVal=0]
        C8_sanity_check[where b=sample_release_build and CM=Add and alpha=1 and beta=3 and x_i=zero_view and x_m=zero_view and weights_m=zero_view and weights_i=zero_view and bcType=Zero and bcVal=0]
  by (simp add: sample_simd_build_def sample_release_build_def)

subsection \<open>Reference potential temperature\<close>

lemma theta_ref_loop:
  "fold (\<lambda>ilev theta_ref.
                   let theta_ref = theta_ref(ilev := (\<lambda>iv. pow (p ilev iv / p0 pc) (kappa pc)));
                       theta_ref = theta_ref(ilev := (\<lambda>iv. T0 pc / theta_ref ilev iv + T1 pc))
                   in theta_ref)
                 [0..<n] th
     = (\<lambda>q. if q < n then (\<lambda>iv. T0 pc / pow (p q iv / p0 pc) (kappa pc) + T1 pc) else th q)"
  using fold_upd_range[of _ "\<lambda>q t iv. T0 pc / pow (p q iv / p0 pc) (kappa pc) + T1 pc" 0 n th]
  by (simp add: Let_def)

lemma exner_loop:
  "fold (\<lambda>ilev exner.
             let exner = exner(ilev := pi' ilev);
                 exner = exner(ilev := (\<lambda>iv. exner ilev iv / p0 pc));
                 exner = exner(ilev := (\<lambda>iv. pow (exner ilev iv) (kappa pc)))
             in exner)
          [0..<n] ex
     = (\<lambda>q. if q < n then (\<lambda>iv. pow (pi' q iv / p0 pc) (kappa pc)) else ex q)"
  using fold_upd_range[of _ "\<lambda>q t iv. pow (pi' q iv / p0 pc) (kappa pc)" 0 n ex]
  by (simp add: Let_def)

lemma level_pack_lt:
  assumes "1 \<le> VS" "1 \<le> NLEV" "k < NLEV"
  shows "k div VS < NUM_LEV VS NLEV"
proof -
  have "k \<le> NLEV - 1" using assms by linarith
  then have "k div VS \<le> (NLEV - 1) div VS" by (rule div_le_mono)
  then show ?thesis using assms by (simp add: NUM_LEV_def NumPacks_eq)
qed

text \<open>
  The claim C6 as stated fails on the constant: \<open>T1\<close> is not
  \<open>0.0065 * TREF * cp / g\<close> exactly, because the literal of the source is the
  single-precision \<^verbatim>\<open>0.0065f\<close>. With the constants of the dynamical core
  (\<open>cp = 1005\<close>, \<open>g = 9.80616\<close>) the two differ.
\<close>

theorem C6_theta_ref_counterexample:
  "T1 sample_constants \<noteq> 0.0065 * TREF * cp sample_constants / g sample_constants"
  by (simp add: T1_def TREF_def lapse_literal_def sample_constants_def)

text \<open>
  C6 (amended). \<open>TREF = 288\<close>, \<open>T1 = c * TREF * cp / g\<close> where \<open>c\<close> is the
  single-precision literal \<^verbatim>\<open>0.0065f\<close>, that is \<open>3489661 / 2^29\<close>, and
  \<open>T0 = TREF - T1\<close>. On an initialised hybrid coordinate, in every well-formed
  build, \<^verbatim>\<open>compute_theta_ref\<close> returns \<open>theta_ref = T0 / exner + T1\<close> at every
  level, with \<open>exner = pow (p / p0) kappa\<close>, the value \<^verbatim>\<open>compute_exner\<close>
  computes; and at a level where \<open>p = p0\<close> (and \<open>p0 \<noteq> 0\<close>) it returns \<open>TREF\<close>.
\<close>

theorem C6_theta_ref:
  assumes wf: "wf_build b" and ini: "m_inited hv"
  shows "TREF = 288
       \<and> T1 pc = (3489661 / 2 ^ 29) * TREF * cp pc / g pc
       \<and> T0 pc = TREF - T1 pc
       \<and> (\<exists>r. compute_theta_ref b pc hv p th = Inr r
            \<and> (\<forall>k<NUM_PHYSICAL_LEV b.
                  flat (VECTOR_SIZE b) r k
                    = T0 pc / pow (flat (VECTOR_SIZE b) p k / p0 pc) (kappa pc) + T1 pc)
            \<and> (\<forall>k<NUM_PHYSICAL_LEV b.
                  flat (VECTOR_SIZE b) p k = p0 pc \<and> p0 pc \<noteq> 0 \<longrightarrow>
                  flat (VECTOR_SIZE b) r k = TREF))
       \<and> (\<forall>k<NUM_PHYSICAL_LEV b.
             flat (VECTOR_SIZE b) (compute_exner b pc pi' ex) k
               = pow (flat (VECTOR_SIZE b) pi' k / p0 pc) (kappa pc))"
proof -
  have vs: "1 \<le> VECTOR_SIZE b" and nl: "1 \<le> NUM_PHYSICAL_LEV b"
    using wf by (simp_all add: wf_build_def)
  have lt: "\<And>k. k < NUM_PHYSICAL_LEV b \<Longrightarrow>
               k div VECTOR_SIZE b < NUM_LEV (VECTOR_SIZE b) (NUM_PHYSICAL_LEV b)"
    by (rule level_pack_lt[OF vs nl])
  have one: "\<And>x y. x = p0 pc \<Longrightarrow> p0 pc \<noteq> 0 \<Longrightarrow> T0 pc / pow (x / p0 pc) y + T1 pc = TREF"
    by (simp add: pow_def T0_def)
  have r: "compute_theta_ref b pc hv p th
             = Inr (\<lambda>q. if q < NUM_LEV (VECTOR_SIZE b) (NUM_PHYSICAL_LEV b)
                         then (\<lambda>iv. T0 pc / pow (p q iv / p0 pc) (kappa pc) + T1 pc) else th q)"
    using ini by (simp only: compute_theta_ref_def theta_ref_loop) simp
  have e: "compute_exner b pc pi' ex
             = (\<lambda>q. if q < NUM_LEV (VECTOR_SIZE b) (NUM_PHYSICAL_LEV b)
                      then (\<lambda>iv. pow (pi' q iv / p0 pc) (kappa pc)) else ex q)"
    by (simp only: compute_exner_def exner_loop)
  show ?thesis
    unfolding r e
    using lt one by (simp add: flat_def TREF_def T1_def T0_def lapse_literal_def)
qed

text \<open>The column \<open>p = p0 = 100000\<close> in the sample build: \<open>theta_ref\<close> is 288.\<close>

theorem C6_theta_ref_witness:
  "\<exists>r. compute_theta_ref sample_simd_build sample_constants sample_hvcoord
          (\<lambda>q l. 100000) zero_view = Inr r
       \<and> flat 2 r 0 = 288 \<and> flat 2 r 1 = 288 \<and> flat 2 r 2 = 288"
proof -
  have ini: "m_inited sample_hvcoord" by (simp add: sample_hvcoord_def)
  obtain r where r: "compute_theta_ref sample_simd_build sample_constants sample_hvcoord
          (\<lambda>q l. 100000) zero_view = Inr r"
    "\<forall>k<3. flat 2 (\<lambda>q l. 100000) k = p0 sample_constants \<and> p0 sample_constants \<noteq> 0
            \<longrightarrow> flat 2 r k = TREF"
    using C6_theta_ref[OF wf_sample_simd_build ini, where pc=sample_constants
        and p="\<lambda>q l. 100000" and th=zero_view and pi'=zero_view and ex=zero_view]
    unfolding sample_simd_build_def by (elim conjE exE) simp
  have "flat 2 r 0 = 288" "flat 2 r 1 = 288" "flat 2 r 2 = 288"
    using r(2)[rule_format, of 0] r(2)[rule_format, of 1] r(2)[rule_format, of 2]
    by (simp_all add: flat_def sample_constants_def TREF_def)
  then show ?thesis using r(1) by simp
qed

subsection \<open>Floating-point exception masks across the legacy entry points\<close>

text \<open>
  The claim C9 as stated fails for \<^verbatim>\<open>scream_run\<close>: with a default mask of
  \<open>13\<close> (invalid, division by zero and overflow on x86) the driver is entered with
  those traps enabled, not with trapping disabled.
\<close>

theorem C9_fpe_masks_counterexample:
  "\<exists>m. entered_with (scream_run 13 (\<lambda>m. m) \<lparr>enabled_fpes = 0, entered_with = []\<rparr>) = [m] \<and> m \<noteq> 0"
  by (simp add: scream_run_def Let_def get_enabled_fpes_def disable_all_fpes_def
        enable_default_fpes_def enable_fpes_def call_out_def)

text \<open>
  C9 (amended). Each of \<^verbatim>\<open>scream_init\<close>, \<^verbatim>\<open>scream_run\<close> and
  \<^verbatim>\<open>scream_finalize\<close> returns with the enabled-trap mask it was entered with,
  whatever the calls in between do to the mask. \<^verbatim>\<open>scream_init\<close> enters the
  session's initialisation with all traps disabled, and the driver with whatever that
  initialisation leaves; \<^verbatim>\<open>scream_run\<close> and \<^verbatim>\<open>scream_finalize\<close> enter
  the driver with exactly the session's default traps enabled.
\<close>

theorem C9_fpe_masks:
  "enabled_fpes (scream_init initialize_scream_session ad_initialize s) = enabled_fpes s
   \<and> enabled_fpes (scream_run default_fpes ad_run s) = enabled_fpes s
   \<and> enabled_fpes (scream_finalize default_fpes ad_finalize s) = enabled_fpes s
   \<and> entered_with (scream_init initialize_scream_session ad_initialize s)
       = entered_with s @ [0, initialize_scream_session 0]
   \<and> entered_with (scream_run default_fpes ad_run s) = entered_with s @ [default_fpes]
   \<and> entered_with (scream_finalize default_fpes ad_finalize s) = entered_with s @ [default_fpes]"
  by (simp add: scream_init_def scream_run_def scream_finalize_def Let_def get_enabled_fpes_def
        disable_all_fpes_def enable_default_fpes_def enable_fpes_def call_out_def)

subsection \<open>The two code paths of the interface average\<close>

lemma upt_1_3: "[Suc 0..<3] = [Suc 0, 2]"
  by (simp add: upt_rec)

lemma upt_1_2: "[Suc 0..<2] = [Suc 0]"
  by (simp add: upt_rec)

lemma NUM_LEV_2_3: "NUM_LEV 2 3 = 2"
  by (simp add: NUM_LEV_def NumPacks_def)

lemma last_2_3: "LastPack 2 3 = 1" "LastPackEnd 2 3 = 0" "LastPack 2 4 = 1" "LastPackEnd 2 4 = 1"
  by (simp_all add: LastPack_def LastPackEnd_def LastPackLen_def NumPacks_def)

text \<open>
  C2. The claim is that the GPU path and the wide-vector path of
  \<^verbatim>\<open>compute_interface_values\<close> leave the same interface column. The code departs
  from it. For the weighted operator in mode \<^verbatim>\<open>Replace\<close>, unit weights, the
  column \<open>1, 2, 3\<close> (a provider that answers \<open>4\<close> one level further) and an output
  column of zeros: the GPU path leaves the bottom interface untouched and writes the
  provider's entry beyond the last level at the interface above it, where the
  wide-vector path writes the last midpoint value at the bottom and the mean above it.
\<close>

theorem C2_weighted_paths_differ:
  "\<exists>r_gpu r_simd.
      compute_interface_values_weighted sample_gpu_build Replace one_view one_view
        sample_column_gpu zero_view 1 0 = Inr r_gpu
    \<and> compute_interface_values_weighted sample_simd_build Replace one_view one_view
        sample_column zero_view 1 0 = Inr r_simd
    \<and> flat 1 r_gpu 2 = 4 \<and> flat 2 r_simd 2 = 5 / 2
    \<and> flat 1 r_gpu 3 = 0 \<and> flat 2 r_simd 3 = 3"
  by (simp add: compute_interface_values_weighted_def sample_gpu_build_def sample_simd_build_def
        compute_interface_values_weighted_gpu_def compute_interface_values_weighted_simd_def
        upt_1_3 upt_1_2 NUM_LEV_2_3 last_2_3 NUM_INTERFACE_LEV_def Let_def flat_def
        combine_pack_def set_lane_def shift_right_def VECTOR_END_def
        one_view_def zero_view_def sample_column_def sample_column_gpu_def packed_def)

text \<open>
  The unweighted operator differs as well, in an accumulating mode: the wide-vector path
  combines into the top entry twice (once with the first pack, once when it fixes the
  boundary), the GPU path once.
\<close>

lemma unweighted_add_paths_differ:
  "\<exists>r_gpu r_simd.
      compute_interface_values sample_gpu_build Add sample_column_gpu zero_view 1 0 = Inr r_gpu
    \<and> compute_interface_values sample_simd_build Add sample_column zero_view 1 0 = Inr r_simd
    \<and> flat 1 r_gpu 0 = 1 \<and> flat 2 r_simd 0 = 3 / 2"
  by (simp add: compute_interface_values_def sample_gpu_build_def sample_simd_build_def
        compute_interface_values_gpu_def compute_interface_values_simd_def
        debug_sanity_check_def sanity_check_def runtime_check_def
        upt_1_3 upt_1_2 NUM_LEV_2_3 last_2_3 NUM_INTERFACE_LEV_def Let_def flat_def
        combine_pack_def set_lane_def shift_right_def VECTOR_END_def
        one_view_def zero_view_def sample_column_def sample_column_gpu_def packed_def)

subsection \<open>Output reductions over the steps of a sampled field\<close>

lemma map2_same: "map2 h (map a xs) (map b xs) = map (\<lambda>x. h (a x) (b x)) xs"
  by (induction xs) simp_all

lemma map2_map2_same:
  "map2 (map2 h) (map (map a) xss) (map (map b) xss) = map (map (\<lambda>x. h (a x) (b x))) xss"
  by (induction xss) (simp_all add: map2_same)

lemma accumulate_step:
  assumes "0 \<le> dt" "0 < m"
  shows "accumulate t (reduction_after t dt m x) (x + real m * dt) = reduction_after t dt (Suc m) x"
proof (cases t)
  case Max_type
  have "real (m - 1) * dt \<le> real m * dt" using assms by (simp add: mult_right_mono)
  then show ?thesis using Max_type by (simp add: reduction_after_def)
next
  case Min_type
  have "0 \<le> real m * dt" using assms by simp
  then show ?thesis using Min_type by (simp add: reduction_after_def)
qed (simp_all add: reduction_after_def)

lemma first_sample: "reduction_after t dt (Suc 0) = (\<lambda>x. x)"
  by (cases t) (simp_all add: reduction_after_def fun_eq_iff)

lemma stream_init_after: "stream_init t n = stream_after t n flds dt 0"
  by (simp add: stream_init_def stream_after_def)

lemma views_step:
  assumes "0 \<le> dt"
  shows "(if m = 0 then field_at flds dt m
          else map2 (map2 (accumulate t)) (map (map (reduction_after t dt m)) flds) (field_at flds dt m))
         = map (map (reduction_after t dt (Suc m))) flds"
proof (cases "m = 0")
  case True
  then show ?thesis by (simp add: field_at_def first_sample)
next
  case False
  then show ?thesis using assms
    by (simp add: field_at_def map2_map2_same accumulate_step)
qed

lemma stream_run_after:
  assumes "0 \<le> dt" "Suc m < n"
  shows "stream_run (field_at flds dt m) (stream_after t n flds dt m) = stream_after t n flds dt (Suc m)"
  using assms views_step[OF assms(1), of m flds t]
  by (cases "m = 0") (simp_all add: stream_run_def stream_after_def Let_def)

lemma stream_run_flush:
  assumes "0 \<le> dt"
  shows "nc_file (stream_run (field_at flds dt m) (stream_after t (Suc m) flds dt m))
           = Some (map (map (\<lambda>x. reduced t (Suc m) (reduction_after t dt (Suc m) x))) flds)"
  using views_step[OF assms, of m flds t]
  by (cases "m = 0") (simp_all add: stream_run_def stream_after_def Let_def comp_def)

lemma steps_before_flush:
  assumes "0 \<le> dt"
  shows "m < n \<Longrightarrow>
   fold (\<lambda>k om. map (stream_run (field_at flds dt k)) om) [0..<m] (map (\<lambda>t. stream_init t n) ts)
     = map (\<lambda>t. stream_after t n flds dt m) ts"
proof (induction m)
  case 0
  show ?case by (simp add: stream_init_after[of _ n flds dt])
next
  case (Suc m)
  then have ih: "fold (\<lambda>k om. map (stream_run (field_at flds dt k)) om) [0..<m]
                   (map (\<lambda>t. stream_init t n) ts)
                 = map (\<lambda>t. stream_after t n flds dt m) ts"
    by simp
  show ?case using Suc.prems assms by (simp add: ih stream_run_after comp_def)
qed

lemma run_steps_files:
  assumes "0 \<le> dt" "0 < N"
  shows "run_steps flds dt N
     = map (\<lambda>t. Some (map (map (\<lambda>x. reduced t N (reduction_after t dt N x))) flds))
         [Instant, Average, Max_type, Min_type]"
proof -
  obtain m where N: "N = Suc m" using assms(2) by (cases N) auto
  have "fold (\<lambda>k om. map (stream_run (field_at flds dt k)) om) [0..<Suc m]
          (map (\<lambda>t. stream_init t (Suc m)) [Instant, Average, Max_type, Min_type])
        = map (stream_run (field_at flds dt m))
            (map (\<lambda>t. stream_after t (Suc m) flds dt m) [Instant, Average, Max_type, Min_type])"
    using steps_before_flush[OF assms(1), of m "Suc m" flds "[Instant, Average, Max_type, Min_type]"]
    by simp
  then show ?thesis
    unfolding run_steps_def Let_def N
    by (simp add: stream_run_flush[OF assms(1)])
qed

lemma field_1_column:
  "ii < num_cols \<Longrightarrow>
   map (map h) (get_test_repo num_cols num_levs) ! 0 ! ii = h (real ii)"
  by (simp add: get_test_repo_def)

lemma mean_of_ten: "(\<Sum>k<10. x + real k) / 10 = 45 / 10 + (x::real)"
  by (simp add: eval_nat_numeral)

text \<open>
  C1. A field whose entry of column \<open>ii\<close> is \<open>ii + k * dt\<close> at step \<open>k\<close>,
  with \<open>dt \<ge> 0\<close>, is sampled at the steps \<open>0, ..., N - 1\<close> and written once,
  after the \<open>N\<close>-th sample. The four files are written and hold, for every column
  \<open>ii\<close> of \<^verbatim>\<open>field_1\<close>: the final sampled value \<open>ii + (N - 1) * dt\<close> in
  the instantaneous and in the maximum output, the first sampled value \<open>ii\<close> in the
  minimum output, and the arithmetic mean of the \<open>N\<close> sampled values in the average
  output. For 10 steps of \<open>dt = 1\<close> these are \<open>9 + ii\<close>, \<open>9 + ii\<close>,
  \<open>ii\<close> and \<open>4.5 + ii\<close>. The values are exact in real arithmetic, hence within
  every relative tolerance.
\<close>

theorem C1_io_reductions:
  assumes "ii < num_cols" and "0 < N" and "0 \<le> dt"
  shows "\<exists>Fi Fa Fx Fn.
           run_steps (get_test_repo num_cols num_levs) dt N = [Some Fi, Some Fa, Some Fx, Some Fn]
         \<and> Fi ! 0 ! ii = real ii + real (N - 1) * dt
         \<and> Fx ! 0 ! ii = real ii + real (N - 1) * dt
         \<and> Fn ! 0 ! ii = real ii
         \<and> Fa ! 0 ! ii = (\<Sum>k<N. real ii + real k * dt) / real N
         \<and> (N = 10 \<and> dt = 1 \<longrightarrow>
               Fi ! 0 ! ii = 9 + real ii \<and> Fx ! 0 ! ii = 9 + real ii \<and> Fn ! 0 ! ii = real ii
             \<and> Fa ! 0 ! ii = 45 / 10 + real ii)"
proof -
  let ?F = "\<lambda>t. map (map (\<lambda>x. reduced t N (reduction_after t dt N x)))
                   (get_test_repo num_cols num_levs)"
  have files: "run_steps (get_test_repo num_cols num_levs) dt N
                 = [Some (?F Instant), Some (?F Average), Some (?F Max_type), Some (?F Min_type)]"
    by (simp add: run_steps_files[OF assms(3) assms(2)])
  have i: "?F Instant ! 0 ! ii = real ii + real (N - 1) * dt"
    using field_1_column[OF assms(1), of "\<lambda>x. reduced Instant N (reduction_after Instant dt N x)" num_levs]
    by (simp add: reduction_after_def)
  have x: "?F Max_type ! 0 ! ii = real ii + real (N - 1) * dt"
    using field_1_column[OF assms(1), of "\<lambda>x. reduced Max_type N (reduction_after Max_type dt N x)" num_levs]
    by (simp add: reduction_after_def)
  have n: "?F Min_type ! 0 ! ii = real ii"
    using field_1_column[OF assms(1), of "\<lambda>x. reduced Min_type N (reduction_after Min_type dt N x)" num_levs]
    by (simp add: reduction_after_def)
  have a: "?F Average ! 0 ! ii = (\<Sum>k<N. real ii + real k * dt) / real N"
    using field_1_column[OF assms(1), of "\<lambda>x. reduced Average N (reduction_after Average dt N x)" num_levs]
    by (simp add: reduction_after_def)
  have ten: "N = 10 \<and> dt = 1 \<longrightarrow>
               ?F Instant ! 0 ! ii = 9 + real ii \<and> ?F Max_type ! 0 ! ii = 9 + real ii
             \<and> ?F Min_type ! 0 ! ii = real ii \<and> ?F Average ! 0 ! ii = 45 / 10 + real ii"
    unfolding i x n a using mean_of_ten[of "real ii"] by auto
  show ?thesis
    using files i x n a ten by blast
qed

text \<open>The test's own size, two columns and three levels, at column 1.\<close>

theorem C1_io_reductions_witness:
  "\<exists>Fi Fa Fx Fn.
           run_steps (get_test_repo 2 3) 1 10 = [Some Fi, Some Fa, Some Fx, Some Fn]
         \<and> Fi ! 0 ! 1 = 10 \<and> Fx ! 0 ! 1 = 10 \<and> Fn ! 0 ! 1 = 1 \<and> Fa ! 0 ! 1 = 11 / 2"
proof -
  obtain Fi Fa Fx Fn where
    "run_steps (get_test_repo 2 3) 1 10 = [Some Fi, Some Fa, Some Fx, Some Fn]"
    "10 = (10::nat) \<and> 1 = (1::real) \<longrightarrow>
       Fi ! 0 ! 1 = 9 + real 1 \<and> Fx ! 0 ! 1 = 9 + real 1 \<and> Fn ! 0 ! 1 = real 1
     \<and> Fa ! 0 ! 1 = 45 / 10 + real 1"
    using C1_io_reductions[of 1 2 10 1 3] by auto
  then show ?thesis by simp
qed

lemma pack_lanes_1_1_3: "pack_lanes 1 1 3 = [1, 2]"
  by (simp add: pack_lanes_def upto_rec1)

lemma pack_lanes_1_0_3: "pack_lanes 1 0 3 = [0, 1, 2]"
  by (simp add: pack_lanes_def upto_rec1)

subsection \<open>Subsidence at the top layer\<close>

text \<open>
  C5. The claim is that the top layer keeps only the \<open>k + 1\<close> term,
  \<open>omega_int (k + 1) * (X (k + 1) - X k)\<close> at \<open>k = 0\<close>. The code departs from it:
  the index pack it reads the differences with is clamped to 1 at level 0, so the top
  layer is updated with \<open>X 2 - X 1\<close>. With \<open>Pack::n = 1\<close>, three levels,
  \<open>dt = 1\<close> and the sample column, the interpolated \<open>omega\<close> is 1 at interface 1 and
  the wind \<open>0, 1, 3\<close> becomes \<open>- 1\<close> at the top, where the claim's formula gives
  \<open>- 1/2\<close>.
\<close>

theorem C5_subsidence_top_layer:
  "iop_u (advance_iop_subsidence 1 3 0 1 287 1004 iop_pmid iop_pint iop_ones iop_ones
            iop_zeros iop_zeros iop_zeros iop_zeros (\<lambda>iq. iop_zeros) iop_state_in) 0 = - 1
   \<and> iop_u_in 0 - 1 / (2 * iop_ones 0) * (1 * (iop_u_in 1 - iop_u_in 0)) = - (1 / 2)"
  by (simp add: advance_iop_subsidence_def Let_def pack_lanes_1_1_3 pack_lanes_1_0_3
        omega_int_lane_def subsidence_lane_def update_lane_def index_and_shift_def
        scream_compute_midpoint_delta_def iop_state_in_def iop_u_in_def iop_ones_def
        iop_zeros_def iop_pmid_def iop_pint_def)

end
